theory Spec2Isabelle
  imports Main "HOL-Library.Sublist"
begin

section \<open>JavaScript values and operators used by the code\<close>

text \<open>
  Strings are \<^typ>\<open>string\<close>. An optional property (\<^verbatim>\<open>error?: string\<close>) or a value that may
  be \<^verbatim>\<open>undefined\<close> is an \<^typ>\<open>'a option\<close>, \<^term>\<open>None\<close> standing for \<^verbatim>\<open>undefined\<close>.
\<close>

abbreviation (input) NL :: string where
  "NL \<equiv> [CHR 0x0A]"

abbreviation (input) DQ :: string where
  "DQ \<equiv> [CHR 0x22]"

abbreviation (input) BSL :: string where
  "BSL \<equiv> [CHR 0x5C]"

text \<open>Truthiness of a string that may be undefined: \<^verbatim>\<open>undefined\<close> and \<^verbatim>\<open>''\<close> are falsy.\<close>

definition truthy :: "string option \<Rightarrow> bool" where
  "truthy v = (case v of None \<Rightarrow> False | Some s \<Rightarrow> s \<noteq> [])"

text \<open>\<^verbatim>\<open>a || b\<close> for a possibly undefined string \<^verbatim>\<open>a\<close> and a string \<^verbatim>\<open>b\<close>.\<close>

definition js_or :: "string option \<Rightarrow> string \<Rightarrow> string" where
  "js_or a b = (case a of None \<Rightarrow> b | Some s \<Rightarrow> if s = [] then b else s)"

text \<open>\<^verbatim>\<open>s.includes(t)\<close>: \<^verbatim>\<open>t\<close> occurs in \<^verbatim>\<open>s\<close> as a contiguous run.\<close>

definition includes_str :: "string \<Rightarrow> string \<Rightarrow> bool" where
  "includes_str s t = sublist t s"

text \<open>
  \<^verbatim>\<open>s.trim()\<close>. A \<^typ>\<open>char\<close> is a code unit below 256; among those, the white space and line
  terminators of ECMAScript are tab, line feed, vertical tab, form feed, carriage return,
  space and no-break space.
\<close>

definition is_white :: "char \<Rightarrow> bool" where
  "is_white c = (c \<in> {CHR 0x09, CHR 0x0A, CHR 0x0B, CHR 0x0C, CHR 0x0D, CHR 0x20, CHR 0xA0})"

definition trim :: "string \<Rightarrow> string" where
  "trim s = rev (dropWhile is_white (rev (dropWhile is_white s)))"

text \<open>\<^verbatim>\<open>s.split('\n')[0]\<close>: the text before the first line feed.\<close>

definition first_line :: "string \<Rightarrow> string" where
  "first_line s = takeWhile (\<lambda>c. c \<noteq> CHR 0x0A) s"

datatype js_error = TypeError | FsError


section \<open>The machine: process environment, files, shell\<close>

text \<open>
  \<^verbatim>\<open>process.platform\<close> and the environment variables the code reads. They are inputs
  that no function here changes.
\<close>

record process =
  platform :: string
  env_SHELL :: "string option"
  env_HOME :: "string option"
  env_USERPROFILE :: "string option"
  env_NVM_DIR :: "string option"

text \<open>
  The state that the code reads and changes through \<^verbatim>\<open>child_process.exec\<close> and
  \<^verbatim>\<open>fs/promises\<close>: the files by path, the paths on which every file operation is refused,
  the command lines handed to the shell so far (oldest first), and whatever else of the
  machine the shell commands see and change.
\<close>

record 's world =
  files :: "string \<Rightarrow> string option"
  denied :: "string set"
  invoked :: "string list"
  sys :: 's

text \<open>
  How the promisified \<^verbatim>\<open>exec\<close> settles: resolved with the two captured streams, or rejected
  (non-zero exit, time-out, spawn failure) with an error that carries a message and, when
  the process ran, the streams.
\<close>

datatype exec_outcome =
    Resolved string string
  | Rejected string "string option" "string option"

text \<open>
  The shell itself is a parameter of the model: given the command line, the time-out in
  milliseconds and the machine, it says how \<^verbatim>\<open>exec\<close> settles and what the machine is
  afterwards. Nothing is assumed about it.
\<close>

type_synonym 's shell = "string \<Rightarrow> nat \<Rightarrow> 's world \<Rightarrow> exec_outcome \<times> 's world"

subsection \<open>utils/shell.ts\<close>

record CommandResult =
  stdout :: string
  stderr :: string
  cmd_success :: bool
  error :: "string option"

text \<open>
  \<^verbatim>\<open>executeCommand(command, options)\<close>; only \<^verbatim>\<open>options.timeout\<close> is ever passed by the
  callers modelled here, and \<^verbatim>\<open>options?.timeout || 60000\<close> turns a missing or zero
  time-out into one minute. The function catches every rejection, so it has no error
  result. The command line is appended to \<^const>\<open>invoked\<close>.
\<close>

definition executeCommand ::
  "'s shell \<Rightarrow> string \<Rightarrow> nat option \<Rightarrow> 's world \<Rightarrow> CommandResult \<times> 's world" where
  "executeCommand sh command timeout w =
     (let ms = (case timeout of None \<Rightarrow> 60000 | Some t \<Rightarrow> if t = 0 then 60000 else t);
          (settled, w') = sh command ms w;
          w'' = w'\<lparr>invoked := invoked w @ [command]\<rparr>
      in case settled of
           Resolved out err \<Rightarrow>
             (\<lparr>stdout = trim out, stderr = trim err, cmd_success = True, error = None\<rparr>, w'')
         | Rejected msg out err \<Rightarrow>
             (\<lparr>stdout = js_or (map_option trim out) [],
               stderr = js_or (map_option trim err) [],
               cmd_success = False, error = Some msg\<rparr>, w''))"

definition commandExists :: "'s shell \<Rightarrow> string \<Rightarrow> 's world \<Rightarrow> bool \<times> 's world" where
  "commandExists sh command w =
     (let (result, w') = executeCommand sh (''which '' @ command) None w
      in (cmd_success result \<and> length (stdout result) > 0, w'))"

definition getCommandVersion ::
  "'s shell \<Rightarrow> string \<Rightarrow> string \<Rightarrow> 's world \<Rightarrow> string option \<times> 's world" where
  "getCommandVersion sh command versionFlag w =
     (let (result, w') = executeCommand sh (command @ '' '' @ versionFlag) None w
      in if cmd_success result then (Some (first_line (stdout result)), w') else (None, w'))"

definition isMacOS :: "process \<Rightarrow> bool" where
  "isMacOS env = (platform env = ''darwin'')"

definition getHomeDirectory :: "process \<Rightarrow> string" where
  "getHomeDirectory env = js_or (env_HOME env) (js_or (env_USERPROFILE env) ''~'')"

definition getShellConfigPath :: "process \<Rightarrow> string" where
  "getShellConfigPath env =
     (let shell = js_or (env_SHELL env) [];
          home = getHomeDirectory env
      in if includes_str shell ''zsh'' then home @ ''/.zshrc''
         else if includes_str shell ''bash'' then
           (if isMacOS env then home @ ''/.bash_profile'' else home @ ''/.bashrc'')
         else home @ ''/.profile'')"

subsection \<open>fs/promises\<close>

text \<open>
  \<^verbatim>\<open>readFile\<close> rejects when the file is missing or access is refused; \<^verbatim>\<open>appendFile\<close> and
  \<^verbatim>\<open>writeFile\<close> create a missing file and reject when access is refused. \<^term>\<open>None\<close> is the
  rejection.
\<close>

definition readFile :: "string \<Rightarrow> 's world \<Rightarrow> string option" where
  "readFile path w = (if path \<in> denied w then None else files w path)"

definition appendFile :: "string \<Rightarrow> string \<Rightarrow> 's world \<Rightarrow> 's world option" where
  "appendFile path data w =
     (if path \<in> denied w then None
      else Some (w\<lparr>files := (files w)(path \<mapsto> (case files w path of None \<Rightarrow> [] | Some old \<Rightarrow> old) @ data)\<rparr>))"

definition writeFile :: "string \<Rightarrow> string \<Rightarrow> 's world \<Rightarrow> 's world option" where
  "writeFile path data w =
     (if path \<in> denied w then None else Some (w\<lparr>files := (files w)(path \<mapsto> data)\<rparr>))"


section \<open>core/package-manager.ts\<close>

datatype OperatingSystem = MACOS | LINUX | WINDOWS | UNKNOWN_OS

datatype PackageManager = HOMEBREW | APT | DNF | YUM | PACMAN | ZYPPER | UNKNOWN

text \<open>The string value of each enum member, as it appears in messages.\<close>

fun pm_string :: "PackageManager \<Rightarrow> string" where
  "pm_string HOMEBREW = ''homebrew''"
| "pm_string APT = ''apt''"
| "pm_string DNF = ''dnf''"
| "pm_string YUM = ''yum''"
| "pm_string PACMAN = ''pacman''"
| "pm_string ZYPPER = ''zypper''"
| "pm_string UNKNOWN = ''unknown''"

record PackageManagerInfo =
  pm_name :: PackageManager
  command :: string
  installCmd :: string
  updateCmd :: string
  searchCmd :: string
  available :: bool

definition detectOS :: "process \<Rightarrow> OperatingSystem" where
  "detectOS env =
     (if platform env = ''darwin'' then MACOS
      else if platform env = ''linux'' then LINUX
      else if platform env = ''win32'' then WINDOWS
      else UNKNOWN_OS)"

definition checkPackageManager ::
  "'s shell \<Rightarrow> PackageManager \<Rightarrow> string \<Rightarrow> 's world \<Rightarrow> bool \<times> 's world" where
  "checkPackageManager sh manager cmd w = commandExists sh cmd w"

text \<open>The table \<^verbatim>\<open>managers\<close> of \<^verbatim>\<open>detectPackageManager\<close>, by key.\<close>

definition managers :: "(string \<times> PackageManagerInfo) list" where
  "managers =
     [(''homebrew'', \<lparr>pm_name = HOMEBREW, command = ''brew'', installCmd = ''brew install'',
         updateCmd = ''brew update && brew upgrade'', searchCmd = ''brew search'',
         available = False\<rparr>),
      (''apt'', \<lparr>pm_name = APT, command = ''apt-get'', installCmd = ''sudo apt-get install -y'',
         updateCmd = ''sudo apt-get update && sudo apt-get upgrade -y'',
         searchCmd = ''apt-cache search'', available = False\<rparr>),
      (''dnf'', \<lparr>pm_name = DNF, command = ''dnf'', installCmd = ''sudo dnf install -y'',
         updateCmd = ''sudo dnf update -y'', searchCmd = ''dnf search'', available = False\<rparr>),
      (''yum'', \<lparr>pm_name = YUM, command = ''yum'', installCmd = ''sudo yum install -y'',
         updateCmd = ''sudo yum update -y'', searchCmd = ''yum search'', available = False\<rparr>),
      (''pacman'', \<lparr>pm_name = PACMAN, command = ''pacman'',
         installCmd = ''sudo pacman -S --noconfirm'', updateCmd = ''sudo pacman -Syu --noconfirm'',
         searchCmd = ''pacman -Ss'', available = False\<rparr>),
      (''zypper'', \<lparr>pm_name = ZYPPER, command = ''zypper'', installCmd = ''sudo zypper install -y'',
         updateCmd = ''sudo zypper update -y'', searchCmd = ''zypper search'',
         available = False\<rparr>)]"

fun checkOrder :: "OperatingSystem \<Rightarrow> string list" where
  "checkOrder MACOS = [''homebrew'']"
| "checkOrder LINUX = [''apt'', ''dnf'', ''yum'', ''pacman'', ''zypper'']"
| "checkOrder WINDOWS = []"
| "checkOrder UNKNOWN_OS = []"

text \<open>
  The loop \<^verbatim>\<open>for (const managerName of checkOrder)\<close>. Every name of \<^const>\<open>checkOrder\<close> is a
  key of \<^const>\<open>managers\<close> (lemma \<open>checkOrder_keys\<close> below), so the lookup never misses; the
  branch for a miss is there only to make the function total.
\<close>

fun probeManagers ::
  "'s shell \<Rightarrow> string list \<Rightarrow> 's world \<Rightarrow> PackageManagerInfo option \<times> 's world" where
  "probeManagers sh [] w = (None, w)"
| "probeManagers sh (managerName # rest) w =
     (case map_of managers managerName of
        None \<Rightarrow> (None, w)
      | Some manager \<Rightarrow>
          (let (avail, w') = checkPackageManager sh (pm_name manager) (command manager) w
           in if avail then (Some (manager\<lparr>available := True\<rparr>), w')
              else probeManagers sh rest w'))"

definition detectPackageManager ::
  "'s shell \<Rightarrow> process \<Rightarrow> 's world \<Rightarrow> PackageManagerInfo option \<times> 's world" where
  "detectPackageManager sh env w = probeManagers sh (checkOrder (detectOS env)) w"


section \<open>core/tool-config.ts\<close>

datatype ToolCategory = LANGUAGE | RUNTIME | SDK | PACKAGE_MANAGER | VERSION_MANAGER

record InstallMethod =
  packageManager :: PackageManager
  packageName :: string
  alternativeCommands :: "string list option"
  postInstallSteps :: "string list option"

text \<open>
  \<^verbatim>\<open>installMethods\<close> is keyed by the string values of \<^typ>\<open>PackageManager\<close>, and
  \<^verbatim>\<open>envVars\<close> is kept in the order \<^verbatim>\<open>Object.entries\<close> enumerates it.
\<close>

record ToolConfig =
  name :: string
  displayName :: string
  category :: ToolCategory
  description :: string
  commandToCheck :: string
  versionFlag :: string
  installMethods :: "(PackageManager \<times> InstallMethod) list"
  manualInstallUrl :: "string option"
  envVars :: "(string \<times> string) list option"
  shellConfig :: "string option"

text \<open>The entries of \<^verbatim>\<open>TOOL_CONFIGS\<close>, in the order of the object literal.\<close>

definition python_config :: ToolConfig where
  "python_config = \<lparr>
     name = ''python'',
     displayName = ''Python'',
     category = LANGUAGE,
     description = ''Python programming language'',
     commandToCheck = ''python3'',
     versionFlag = ''--version'',
     installMethods =
       [(HOMEBREW, \<lparr>packageManager = HOMEBREW, packageName = ''python@3'',
          alternativeCommands = None,
          postInstallSteps = Some [''python3 -m ensurepip --upgrade'']\<rparr>),
        (APT, \<lparr>packageManager = APT, packageName = ''python3 python3-pip python3-venv'',
          alternativeCommands = None,
          postInstallSteps = None\<rparr>),
        (DNF, \<lparr>packageManager = DNF, packageName = ''python3 python3-pip'',
          alternativeCommands = None,
          postInstallSteps = None\<rparr>),
        (YUM, \<lparr>packageManager = YUM, packageName = ''python3 python3-pip'',
          alternativeCommands = None,
          postInstallSteps = None\<rparr>),
        (PACMAN, \<lparr>packageManager = PACMAN, packageName = ''python python-pip'',
          alternativeCommands = None,
          postInstallSteps = None\<rparr>),
        (ZYPPER, \<lparr>packageManager = ZYPPER, packageName = ''python3 python3-pip'',
          alternativeCommands = None,
          postInstallSteps = None\<rparr>)],
     manualInstallUrl = None,
     envVars = None,
     shellConfig = None\<rparr>"

definition nodejs_config :: ToolConfig where
  "nodejs_config = \<lparr>
     name = ''nodejs'',
     displayName = ''Node.js'',
     category = RUNTIME,
     description = ''JavaScript runtime'',
     commandToCheck = ''node'',
     versionFlag = ''--version'',
     installMethods =
       [(HOMEBREW, \<lparr>packageManager = HOMEBREW, packageName = ''node'',
          alternativeCommands = None,
          postInstallSteps = None\<rparr>),
        (APT, \<lparr>packageManager = APT, packageName = ''nodejs npm'',
          alternativeCommands = Some [''curl -fsSL https://deb.nodesource.com/setup_lts.x | sudo -E bash -'',
            ''sudo apt-get install -y nodejs''],
          postInstallSteps = None\<rparr>),
        (DNF, \<lparr>packageManager = DNF, packageName = ''nodejs npm'',
          alternativeCommands = None,
          postInstallSteps = None\<rparr>),
        (YUM, \<lparr>packageManager = YUM, packageName = ''nodejs npm'',
          alternativeCommands = Some [''curl -fsSL https://rpm.nodesource.com/setup_lts.x | sudo bash -'',
            ''sudo yum install -y nodejs''],
          postInstallSteps = None\<rparr>),
        (PACMAN, \<lparr>packageManager = PACMAN, packageName = ''nodejs npm'',
          alternativeCommands = None,
          postInstallSteps = None\<rparr>),
        (ZYPPER, \<lparr>packageManager = ZYPPER, packageName = ''nodejs npm'',
          alternativeCommands = None,
          postInstallSteps = None\<rparr>)],
     manualInstallUrl = None,
     envVars = None,
     shellConfig = None\<rparr>"

definition git_config :: ToolConfig where
  "git_config = \<lparr>
     name = ''git'',
     displayName = ''Git'',
     category = PACKAGE_MANAGER,
     description = ''Version control system'',
     commandToCheck = ''git'',
     versionFlag = ''--version'',
     installMethods =
       [(HOMEBREW, \<lparr>packageManager = HOMEBREW, packageName = ''git'',
          alternativeCommands = None,
          postInstallSteps = None\<rparr>),
        (APT, \<lparr>packageManager = APT, packageName = ''git'',
          alternativeCommands = None,
          postInstallSteps = None\<rparr>),
        (DNF, \<lparr>packageManager = DNF, packageName = ''git'',
          alternativeCommands = None,
          postInstallSteps = None\<rparr>),
        (YUM, \<lparr>packageManager = YUM, packageName = ''git'',
          alternativeCommands = None,
          postInstallSteps = None\<rparr>),
        (PACMAN, \<lparr>packageManager = PACMAN, packageName = ''git'',
          alternativeCommands = None,
          postInstallSteps = None\<rparr>),
        (ZYPPER, \<lparr>packageManager = ZYPPER, packageName = ''git'',
          alternativeCommands = None,
          postInstallSteps = None\<rparr>)],
     manualInstallUrl = None,
     envVars = None,
     shellConfig = None\<rparr>"

definition docker_config :: ToolConfig where
  "docker_config = \<lparr>
     name = ''docker'',
     displayName = ''Docker'',
     category = RUNTIME,
     description = ''Container platform'',
     commandToCheck = ''docker'',
     versionFlag = ''--version'',
     installMethods =
       [(HOMEBREW, \<lparr>packageManager = HOMEBREW, packageName = ''--cask docker'',
          alternativeCommands = None,
          postInstallSteps = None\<rparr>),
        (APT, \<lparr>packageManager = APT, packageName = ''docker.io docker-compose'',
          alternativeCommands = None,
          postInstallSteps = Some [''sudo systemctl start docker'',
            ''sudo systemctl enable docker'',
            ''sudo usermod -aG docker $USER'']\<rparr>),
        (DNF, \<lparr>packageManager = DNF, packageName = ''docker docker-compose'',
          alternativeCommands = None,
          postInstallSteps = Some [''sudo systemctl start docker'',
            ''sudo systemctl enable docker'',
            ''sudo usermod -aG docker $USER'']\<rparr>),
        (YUM, \<lparr>packageManager = YUM, packageName = ''docker docker-compose'',
          alternativeCommands = None,
          postInstallSteps = Some [''sudo systemctl start docker'',
            ''sudo systemctl enable docker'',
            ''sudo usermod -aG docker $USER'']\<rparr>),
        (PACMAN, \<lparr>packageManager = PACMAN, packageName = ''docker docker-compose'',
          alternativeCommands = None,
          postInstallSteps = Some [''sudo systemctl start docker'',
            ''sudo systemctl enable docker'',
            ''sudo usermod -aG docker $USER'']\<rparr>),
        (ZYPPER, \<lparr>packageManager = ZYPPER, packageName = ''docker docker-compose'',
          alternativeCommands = None,
          postInstallSteps = Some [''sudo systemctl start docker'',
            ''sudo systemctl enable docker'',
            ''sudo usermod -aG docker $USER'']\<rparr>)],
     manualInstallUrl = Some ''https://docs.docker.com/engine/install/'',
     envVars = None,
     shellConfig = None\<rparr>"

definition java_config :: ToolConfig where
  "java_config = \<lparr>
     name = ''java'',
     displayName = ''Java'',
     category = LANGUAGE,
     description = ''Java Development Kit'',
     commandToCheck = ''java'',
     versionFlag = ''-version'',
     installMethods =
       [(HOMEBREW, \<lparr>packageManager = HOMEBREW, packageName = ''openjdk@17'',
          alternativeCommands = None,
          postInstallSteps = Some [''sudo ln -sfn /opt/homebrew/opt/openjdk@17/libexec/openjdk.jdk /Library/Java/JavaVirtualMachines/openjdk-17.jdk'']\<rparr>),
        (APT, \<lparr>packageManager = APT, packageName = ''openjdk-17-jdk'',
          alternativeCommands = None,
          postInstallSteps = None\<rparr>),
        (DNF, \<lparr>packageManager = DNF, packageName = ''java-17-openjdk-devel'',
          alternativeCommands = None,
          postInstallSteps = None\<rparr>),
        (YUM, \<lparr>packageManager = YUM, packageName = ''java-17-openjdk-devel'',
          alternativeCommands = None,
          postInstallSteps = None\<rparr>),
        (PACMAN, \<lparr>packageManager = PACMAN, packageName = ''jdk17-openjdk'',
          alternativeCommands = None,
          postInstallSteps = None\<rparr>),
        (ZYPPER, \<lparr>packageManager = ZYPPER, packageName = ''java-17-openjdk-devel'',
          alternativeCommands = None,
          postInstallSteps = None\<rparr>)],
     manualInstallUrl = None,
     envVars = Some [(''JAVA_HOME'', ''/usr/lib/jvm/java-17-openjdk'')],
     shellConfig = None\<rparr>"

definition go_config :: ToolConfig where
  "go_config = \<lparr>
     name = ''go'',
     displayName = ''Go'',
     category = LANGUAGE,
     description = ''Go programming language'',
     commandToCheck = ''go'',
     versionFlag = ''version'',
     installMethods =
       [(HOMEBREW, \<lparr>packageManager = HOMEBREW, packageName = ''go'',
          alternativeCommands = None,
          postInstallSteps = None\<rparr>),
        (APT, \<lparr>packageManager = APT, packageName = ''golang'',
          alternativeCommands = None,
          postInstallSteps = None\<rparr>),
        (DNF, \<lparr>packageManager = DNF, packageName = ''golang'',
          alternativeCommands = None,
          postInstallSteps = None\<rparr>),
        (YUM, \<lparr>packageManager = YUM, packageName = ''golang'',
          alternativeCommands = None,
          postInstallSteps = None\<rparr>),
        (PACMAN, \<lparr>packageManager = PACMAN, packageName = ''go'',
          alternativeCommands = None,
          postInstallSteps = None\<rparr>),
        (ZYPPER, \<lparr>packageManager = ZYPPER, packageName = ''go'',
          alternativeCommands = None,
          postInstallSteps = None\<rparr>)],
     manualInstallUrl = None,
     envVars = Some [(''GOPATH'', ''$HOME/go''), (''PATH'', ''$PATH:$GOPATH/bin'')],
     shellConfig = None\<rparr>"

definition rust_config :: ToolConfig where
  "rust_config = \<lparr>
     name = ''rust'',
     displayName = ''Rust'',
     category = LANGUAGE,
     description = ''Rust programming language'',
     commandToCheck = ''rustc'',
     versionFlag = ''--version'',
     installMethods =
       [(HOMEBREW, \<lparr>packageManager = HOMEBREW, packageName = ''rust'',
          alternativeCommands = None,
          postInstallSteps = None\<rparr>),
        (APT, \<lparr>packageManager = APT, packageName = ''curl build-essential'',
          alternativeCommands = Some [''curl --proto '' @ [CHR 0x22] @ ''=https'' @ [CHR 0x22] @ '' --tlsv1.2 -sSf https://sh.rustup.rs | sh -s -- -y''],
          postInstallSteps = None\<rparr>),
        (DNF, \<lparr>packageManager = DNF, packageName = ''rust cargo'',
          alternativeCommands = None,
          postInstallSteps = None\<rparr>),
        (YUM, \<lparr>packageManager = YUM, packageName = ''rust cargo'',
          alternativeCommands = None,
          postInstallSteps = None\<rparr>),
        (PACMAN, \<lparr>packageManager = PACMAN, packageName = ''rust'',
          alternativeCommands = None,
          postInstallSteps = None\<rparr>),
        (ZYPPER, \<lparr>packageManager = ZYPPER, packageName = ''rust cargo'',
          alternativeCommands = None,
          postInstallSteps = None\<rparr>)],
     manualInstallUrl = None,
     envVars = None,
     shellConfig = Some ''source $HOME/.cargo/env''\<rparr>"

definition flutter_config :: ToolConfig where
  "flutter_config = \<lparr>
     name = ''flutter'',
     displayName = ''Flutter'',
     category = SDK,
     description = ''Flutter SDK for mobile development'',
     commandToCheck = ''flutter'',
     versionFlag = ''--version'',
     installMethods =
       [(HOMEBREW, \<lparr>packageManager = HOMEBREW, packageName = ''--cask flutter'',
          alternativeCommands = None,
          postInstallSteps = None\<rparr>),
        (APT, \<lparr>packageManager = APT, packageName = ''git curl unzip'',
          alternativeCommands = Some [''git clone https://github.com/flutter/flutter.git -b stable $HOME/development/flutter''],
          postInstallSteps = None\<rparr>),
        (DNF, \<lparr>packageManager = DNF, packageName = ''git curl unzip'',
          alternativeCommands = Some [''git clone https://github.com/flutter/flutter.git -b stable $HOME/development/flutter''],
          postInstallSteps = None\<rparr>),
        (YUM, \<lparr>packageManager = YUM, packageName = ''git curl unzip'',
          alternativeCommands = Some [''git clone https://github.com/flutter/flutter.git -b stable $HOME/development/flutter''],
          postInstallSteps = None\<rparr>),
        (PACMAN, \<lparr>packageManager = PACMAN, packageName = ''flutter'',
          alternativeCommands = None,
          postInstallSteps = None\<rparr>),
        (ZYPPER, \<lparr>packageManager = ZYPPER, packageName = ''git curl unzip'',
          alternativeCommands = Some [''git clone https://github.com/flutter/flutter.git -b stable $HOME/development/flutter''],
          postInstallSteps = None\<rparr>)],
     manualInstallUrl = Some ''https://flutter.dev/docs/get-started/install'',
     envVars = Some [(''PATH'', ''$PATH:$HOME/development/flutter/bin'')],
     shellConfig = None\<rparr>"

definition TOOL_CONFIGS :: "(string \<times> ToolConfig) list" where
  "TOOL_CONFIGS =
     [(''python'', python_config),
      (''nodejs'', nodejs_config),
      (''git'', git_config),
      (''docker'', docker_config),
      (''java'', java_config),
      (''go'', go_config),
      (''rust'', rust_config),
      (''flutter'', flutter_config)]"

text \<open>
  \<^verbatim>\<open>TOOL_CONFIGS[toolName]\<close> is a property read on an object literal, whose prototype is
  \<^verbatim>\<open>Object.prototype\<close>: a name that is not a key of the literal but names a member of
  \<^verbatim>\<open>Object.prototype\<close> yields that member, not \<^verbatim>\<open>undefined\<close>. Each of these members is
  truthy: eleven functions and, for \<^verbatim>\<open>__proto__\<close>, the prototype object itself.
\<close>

datatype 'a js_member = Own 'a | Inherited string | Absent

definition object_prototype_keys :: "string list" where
  "object_prototype_keys =
     [''constructor'', ''__defineGetter__'', ''__defineSetter__'', ''hasOwnProperty'',
      ''__lookupGetter__'', ''__lookupSetter__'', ''isPrototypeOf'', ''propertyIsEnumerable'',
      ''toString'', ''valueOf'', ''__proto__'', ''toLocaleString'']"

text \<open>
  The \<^verbatim>\<open>name\<close> property of an inherited member: a function's own name
  (\<^verbatim>\<open>Object\<close> for \<^verbatim>\<open>constructor\<close>), and \<^verbatim>\<open>undefined\<close> on the prototype object. None of the
  members has a \<^verbatim>\<open>displayName\<close>, \<^verbatim>\<open>commandToCheck\<close>, \<^verbatim>\<open>versionFlag\<close> or
  \<^verbatim>\<open>installMethods\<close> property.
\<close>

definition inherited_name :: "string \<Rightarrow> string option" where
  "inherited_name k =
     (if k = ''constructor'' then Some ''Object''
      else if k = ''__proto__'' then None
      else Some k)"

definition getToolConfig :: "string \<Rightarrow> ToolConfig js_member" where
  "getToolConfig toolName =
     (case map_of TOOL_CONFIGS toolName of
        Some toolConfig \<Rightarrow> Own toolConfig
      | None \<Rightarrow> if toolName \<in> set object_prototype_keys then Inherited toolName else Absent)"

definition getAllToolNames :: "string list" where
  "getAllToolNames = map fst TOOL_CONFIGS"

definition getToolsByCategory :: "ToolCategory \<Rightarrow> ToolConfig list" where
  "getToolsByCategory c = filter (\<lambda>tool. category tool = c) (map snd TOOL_CONFIGS)"


text \<open>
  Reading a property off the result of \<^const>\<open>getToolConfig\<close>: an inherited member has none
  of the properties of a \<^typ>\<open>ToolConfig\<close>, so the read is \<^verbatim>\<open>undefined\<close>. A template literal
  prints \<^verbatim>\<open>undefined\<close> as the nine letters.
\<close>

definition js_prop :: "('a \<Rightarrow> 'b) \<Rightarrow> 'a js_member \<Rightarrow> 'b option" where
  "js_prop f m = (case m of Own c \<Rightarrow> Some (f c) | Inherited k \<Rightarrow> None | Absent \<Rightarrow> None)"

definition template :: "string option \<Rightarrow> string" where
  "template v = (case v of None \<Rightarrow> ''undefined'' | Some s \<Rightarrow> s)"


section \<open>installers/unified-installer.ts\<close>

record InstallResult =
  success :: bool
  message :: string
  details :: "string option"
  needsRestart :: "bool option"

subsection \<open>configureShellEnvironment\<close>

definition config_marker :: "ToolConfig \<Rightarrow> string" where
  "config_marker toolConfig = ''# '' @ displayName toolConfig @ '' Configuration''"

text \<open>The text \<^verbatim>\<open>configContent\<close> that the function builds before it touches the file.\<close>

definition configContent :: "ToolConfig \<Rightarrow> string" where
  "configContent toolConfig =
     (case envVars toolConfig of
        None \<Rightarrow> []
      | Some vars \<Rightarrow>
          NL @ config_marker toolConfig @ NL @
          concat (map (\<lambda>(key, val). ''export '' @ key @ ''='' @ DQ @ val @ DQ @ NL) vars))
     @ (case shellConfig toolConfig of
          None \<Rightarrow> []
        | Some snippet \<Rightarrow> if snippet = [] then [] else snippet @ NL)"

text \<open>
  A failed read leaves \<^verbatim>\<open>existingContent\<close> empty; a failed append is caught, reported on
  the console and answered with \<^verbatim>\<open>false\<close>.
\<close>

definition configureShellEnvironment ::
  "process \<Rightarrow> ToolConfig \<Rightarrow> 's world \<Rightarrow> bool \<times> 's world" where
  "configureShellEnvironment env toolConfig w =
     (let shellConfigPath = getShellConfigPath env
      in if configContent toolConfig = [] then (False, w)
         else
           (let existingContent = (case readFile shellConfigPath w of None \<Rightarrow> [] | Some c \<Rightarrow> c)
            in if includes_str existingContent (config_marker toolConfig) then (False, w)
               else (case appendFile shellConfigPath (configContent toolConfig) w of
                       Some w' \<Rightarrow> (True, w')
                     | None \<Rightarrow> (False, w))))"

subsection \<open>installTool\<close>

text \<open>The loop over \<^verbatim>\<open>installMethod.alternativeCommands\<close>, with its \<^verbatim>\<open>break\<close>.\<close>

fun tryAlternatives ::
  "'s shell \<Rightarrow> string list \<Rightarrow> 's world \<Rightarrow> (bool \<times> string) \<times> 's world" where
  "tryAlternatives sh [] w = ((False, []), w)"
| "tryAlternatives sh (altCmd # rest) w =
     (let (altResult, w') = executeCommand sh altCmd (Some 600000) w
      in if cmd_success altResult then ((True, stdout altResult), w')
         else tryAlternatives sh rest w')"

text \<open>
  Lines 138 to 158: the package manager's own command, then the alternatives. The result is
  \<^verbatim>\<open>installSuccess\<close>, \<^verbatim>\<open>installDetails\<close> and \<^verbatim>\<open>packageResult\<close>.
\<close>

definition installStep ::
  "'s shell \<Rightarrow> PackageManagerInfo \<Rightarrow> InstallMethod \<Rightarrow> 's world
    \<Rightarrow> (bool \<times> string \<times> CommandResult) \<times> 's world" where
  "installStep sh pm installMethod w =
     (let packageCmd = installCmd pm @ '' '' @ packageName installMethod;
          (packageResult, w1) = executeCommand sh packageCmd (Some 600000) w
      in if cmd_success packageResult then ((True, stdout packageResult, packageResult), w1)
         else (case alternativeCommands installMethod of
                 None \<Rightarrow> ((False, [], packageResult), w1)
               | Some alts \<Rightarrow>
                   (let ((installSuccess, installDetails), w2) = tryAlternatives sh alts w1
                    in ((installSuccess, installDetails, packageResult), w2))))"

text \<open>The loop over \<^verbatim>\<open>installMethod.postInstallSteps\<close>: every step runs, its result is dropped.\<close>

fun runPostInstallSteps :: "'s shell \<Rightarrow> string list \<Rightarrow> 's world \<Rightarrow> 's world" where
  "runPostInstallSteps sh [] w = w"
| "runPostInstallSteps sh (step # rest) w =
     runPostInstallSteps sh rest (snd (executeCommand sh step (Some 120000) w))"

definition postInstall :: "'s shell \<Rightarrow> InstallMethod \<Rightarrow> 's world \<Rightarrow> 's world" where
  "postInstall sh installMethod w =
     (case postInstallSteps installMethod of
        None \<Rightarrow> w
      | Some steps \<Rightarrow> runPostInstallSteps sh steps w)"

text \<open>Lines 175 to 180: the value of \<^verbatim>\<open>needsRestart\<close>.\<close>

definition shellStep :: "process \<Rightarrow> ToolConfig \<Rightarrow> 's world \<Rightarrow> bool \<times> 's world" where
  "shellStep env toolConfig w =
     (if truthy (shellConfig toolConfig) \<or> envVars toolConfig \<noteq> None
      then configureShellEnvironment env toolConfig w
      else (False, w))"

text \<open>Lines 168 to 198: post-install steps, shell configuration and the final verification.\<close>

definition finishInstall ::
  "'s shell \<Rightarrow> process \<Rightarrow> ToolConfig \<Rightarrow> InstallMethod \<Rightarrow> string \<Rightarrow> 's world
    \<Rightarrow> InstallResult \<times> 's world" where
  "finishInstall sh env toolConfig installMethod installDetails w =
     (let w1 = postInstall sh installMethod w;
          (restart, w2) = shellStep env toolConfig w1;
          (verified, w3) = commandExists sh (commandToCheck toolConfig) w2
      in if verified \<or> restart
         then (\<lparr>success = True,
                message = displayName toolConfig @ '' installed successfully'',
                details = Some installDetails,
                needsRestart = Some restart\<rparr>, w3)
         else (\<lparr>success = False,
                message = displayName toolConfig @ '' installation completed but verification failed'',
                details = Some ''The tool may require a shell restart to be available'',
                needsRestart = Some True\<rparr>, w3))"

text \<open>
  The \<^verbatim>\<open>try\<close> block, lines 137 to 198. Nothing in it throws (\<^const>\<open>executeCommand\<close> and
  \<^const>\<open>configureShellEnvironment\<close> catch what their calls raise), so the \<^verbatim>\<open>catch\<close> clause of
  lines 199 to 204 has no run.
\<close>

definition installWith ::
  "'s shell \<Rightarrow> process \<Rightarrow> ToolConfig \<Rightarrow> PackageManagerInfo \<Rightarrow> InstallMethod \<Rightarrow> 's world
    \<Rightarrow> InstallResult \<times> 's world" where
  "installWith sh env toolConfig pm installMethod w =
     (let ((installSuccess, installDetails, packageResult), w1) = installStep sh pm installMethod w
      in if \<not> installSuccess
         then (\<lparr>success = False,
                message = ''Failed to install '' @ displayName toolConfig,
                details = Some (js_or (error packageResult) (stderr packageResult)),
                needsRestart = None\<rparr>, w1)
         else finishInstall sh env toolConfig installMethod installDetails w1)"

text \<open>
  \<^verbatim>\<open>installTool(toolName, options)\<close>; \<^verbatim>\<open>options\<close> (the requested version) is not read by
  the body. For an inherited member the property reads give \<^verbatim>\<open>undefined\<close>, and
  \<^verbatim>\<open>toolConfig.installMethods[packageManager.name]\<close> on line 126, which is outside the
  \<^verbatim>\<open>try\<close> block, raises a TypeError that rejects the promise.
\<close>

definition installTool ::
  "'s shell \<Rightarrow> process \<Rightarrow> string \<Rightarrow> string option \<Rightarrow> 's world
    \<Rightarrow> (js_error + InstallResult) \<times> 's world" where
  "installTool sh env toolName opts w =
     (let toolConfig = getToolConfig toolName
      in if toolConfig = Absent
         then (Inr \<lparr>success = False, message = ''Unknown tool: '' @ toolName,
                    details = None, needsRestart = None\<rparr>, w)
         else
          (let (alreadyInstalled, w1) =
                 commandExists sh (template (js_prop commandToCheck toolConfig)) w
           in if alreadyInstalled
              then (Inr \<lparr>success = True,
                         message = template (js_prop displayName toolConfig) @ '' is already installed'',
                         details = None, needsRestart = None\<rparr>, w1)
              else
               (let (packageManager, w2) = detectPackageManager sh env w1
                in case packageManager of
                     None \<Rightarrow>
                       (Inr \<lparr>success = False,
                             message = ''No package manager available. Please install a package manager first.'',
                             details = None, needsRestart = None\<rparr>, w2)
                   | Some pm \<Rightarrow>
                       (case toolConfig of
                          Own config \<Rightarrow>
                            (case map_of (installMethods config) (pm_name pm) of
                               None \<Rightarrow>
                                 (Inr \<lparr>success = False,
                                       message = displayName config @ '' installation not supported on ''
                                                 @ pm_string (pm_name pm),
                                       details =
                                         (case manualInstallUrl config of
                                            None \<Rightarrow> None
                                          | Some url \<Rightarrow>
                                              if url = [] then None
                                              else Some (''Please install manually: '' @ url)),
                                       needsRestart = None\<rparr>, w2)
                             | Some installMethod \<Rightarrow>
                                 (let (result, w3) = installWith sh env config pm installMethod w2
                                  in (Inr result, w3)))
                        | _ \<Rightarrow> (Inl TypeError, w2)))))"

subsection \<open>installMultipleTools\<close>

text \<open>
  The loop \<^verbatim>\<open>for (const toolName of toolNames) results[toolName] = await installTool(toolName)\<close>.
  A rejected \<^verbatim>\<open>installTool\<close> ends the loop and rejects the whole call. The assignment
  \<^verbatim>\<open>results['__proto__'] = value\<close> runs the inherited setter, which replaces the prototype
  of \<^verbatim>\<open>results\<close> and adds no key.
\<close>

fun installEach ::
  "'s shell \<Rightarrow> process \<Rightarrow> string list \<Rightarrow> (string \<Rightarrow> InstallResult option) \<Rightarrow> 's world
    \<Rightarrow> (js_error + (string \<Rightarrow> InstallResult option)) \<times> 's world" where
  "installEach sh env [] results w = (Inr results, w)"
| "installEach sh env (toolName # rest) results w =
     (case installTool sh env toolName None w of
        (Inl e, w') \<Rightarrow> (Inl e, w')
      | (Inr r, w') \<Rightarrow>
          installEach sh env rest
            (if toolName = ''__proto__'' then results else results(toolName \<mapsto> r)) w')"

definition installMultipleTools ::
  "'s shell \<Rightarrow> process \<Rightarrow> string list \<Rightarrow> 's world
    \<Rightarrow> (js_error + (string \<Rightarrow> InstallResult option)) \<times> 's world" where
  "installMultipleTools sh env toolNames w = installEach sh env toolNames Map.empty w"

subsection \<open>installNvm and installNodeViaTarget\<close>

definition nvm_installCommand :: string where
  "nvm_installCommand =
     ''curl -o- https://raw.githubusercontent.com/nvm-sh/nvm/v0.39.7/install.sh | bash''"

definition nvmConfig :: string where
  "nvmConfig =
     NL @ ''# NVM Configuration'' @ NL @
     ''export NVM_DIR='' @ DQ @ ''$HOME/.nvm'' @ DQ @ NL @
     ''[ -s '' @ DQ @ ''$NVM_DIR/nvm.sh'' @ DQ @ '' ] && '' @ BSL @ ''. '' @ DQ @ ''$NVM_DIR/nvm.sh'' @ DQ @ NL @
     ''[ -s '' @ DQ @ ''$NVM_DIR/bash_completion'' @ DQ @ '' ] && '' @ BSL @ ''. '' @ DQ
       @ ''$NVM_DIR/bash_completion'' @ DQ @ NL"

text \<open>
  Lines 294 to 301. Whatever the \<^verbatim>\<open>try\<close> block raises (the read or the append) sends
  control to \<^verbatim>\<open>writeFile\<close>, whose own rejection is not caught. \<^term>\<open>None\<close> is that rejection.
\<close>

definition addNvmConfig :: "string \<Rightarrow> 's world \<Rightarrow> 's world option" where
  "addNvmConfig shellConfigPath w =
     (case readFile shellConfigPath w of
        None \<Rightarrow> writeFile shellConfigPath nvmConfig w
      | Some content \<Rightarrow>
          if \<not> includes_str content ''NVM_DIR''
          then (case appendFile shellConfigPath nvmConfig w of
                  Some w' \<Rightarrow> Some w'
                | None \<Rightarrow> writeFile shellConfigPath nvmConfig w)
          else Some w)"

definition installNvm ::
  "'s shell \<Rightarrow> process \<Rightarrow> 's world \<Rightarrow> (js_error + InstallResult) \<times> 's world" where
  "installNvm sh env w =
     (let (nvmExists, w1) = commandExists sh ''nvm'' w
      in if nvmExists
         then (Inr \<lparr>success = True, message = ''nvm is already installed'',
                    details = None, needsRestart = None\<rparr>, w1)
         else
          (let (result, w2) = executeCommand sh nvm_installCommand (Some 120000) w1
           in case addNvmConfig (getShellConfigPath env) w2 of
                None \<Rightarrow> (Inl FsError, w2)
              | Some w3 \<Rightarrow>
                  (Inr \<lparr>success = True, message = ''nvm installed successfully'',
                        details = Some (stdout result), needsRestart = Some True\<rparr>, w3)))"

text \<open>Lines 335 to 352 of \<^verbatim>\<open>installNodeViaTarget\<close>: the installation through nvm.\<close>

definition installNodeWithNvm ::
  "'s shell \<Rightarrow> process \<Rightarrow> string \<Rightarrow> 's world \<Rightarrow> InstallResult \<times> 's world" where
  "installNodeWithNvm sh env version w =
     (let nvmDir = js_or (env_NVM_DIR env) (getHomeDirectory env @ ''/.nvm'');
          installCommand = ''bash -c '' @ DQ @ ''source '' @ nvmDir @ ''/nvm.sh && nvm install ''
                           @ version @ '' && nvm use '' @ version @ DQ;
          (result, w1) = executeCommand sh installCommand (Some 300000) w;
          (present, w2) = (if cmd_success result then (True, w1) else commandExists sh ''node'' w1)
      in if present
         then (\<lparr>success = True,
                message = ''Node.js '' @ version @ '' installed successfully via nvm'',
                details = Some (stdout result), needsRestart = None\<rparr>, w2)
         else (\<lparr>success = False, message = ''Failed to install Node.js via nvm'',
                details = Some (js_or (error result) (stderr result)), needsRestart = None\<rparr>, w2))"

text \<open>\<^verbatim>\<open>installNodeViaTarget(version = 'lts')\<close>: a missing argument is \<^verbatim>\<open>'lts'\<close>.\<close>

definition installNodeViaTarget ::
  "'s shell \<Rightarrow> process \<Rightarrow> string option \<Rightarrow> 's world
    \<Rightarrow> (js_error + InstallResult) \<times> 's world" where
  "installNodeViaTarget sh env version_arg w =
     (let version = (case version_arg of None \<Rightarrow> ''lts'' | Some v \<Rightarrow> v);
          (nodeExists, w1) = commandExists sh ''node'' w
      in if nodeExists
         then (Inr \<lparr>success = True, message = ''Node.js is already installed'',
                    details = None, needsRestart = None\<rparr>, w1)
         else
          (let (nvmExists, w2) = commandExists sh ''nvm'' w1
           in if \<not> nvmExists
              then (case installNvm sh env w2 of
                      (Inl e, w3) \<Rightarrow> (Inl e, w3)
                    | (Inr nvmResult, w3) \<Rightarrow>
                        if \<not> success nvmResult
                        then installTool sh env ''nodejs'' None w3
                        else (let (r, w4) = installNodeWithNvm sh env version w3 in (Inr r, w4)))
              else (let (r, w4) = installNodeWithNvm sh env version w2 in (Inr r, w4))))"


section \<open>validators/environment-validator.ts\<close>

text \<open>
  The optional \<^verbatim>\<open>path\<close> of a \<^verbatim>\<open>ToolStatus\<close> is never set and is left out. \<^verbatim>\<open>name\<close> and
  \<^verbatim>\<open>displayName\<close> are copied from the result of \<^const>\<open>getToolConfig\<close>, so they are
  \<^verbatim>\<open>undefined\<close> where that result has no such property.
\<close>

record ToolStatus =
  ts_name :: "string option"
  ts_displayName :: "string option"
  installed :: bool
  version :: "string option"

definition member_name :: "ToolConfig js_member \<Rightarrow> string option" where
  "member_name m =
     (case m of Own c \<Rightarrow> Some (name c) | Inherited k \<Rightarrow> inherited_name k | Absent \<Rightarrow> None)"

text \<open>
  The object returned on lines 55 to 60; \<^verbatim>\<open>version || undefined\<close> drops an empty first
  line.
\<close>

definition toolStatus :: "ToolConfig js_member \<Rightarrow> bool \<Rightarrow> string option \<Rightarrow> ToolStatus" where
  "toolStatus toolConfig inst ver =
     \<lparr>ts_name = member_name toolConfig,
      ts_displayName = js_prop displayName toolConfig,
      installed = inst,
      version = (if truthy ver then ver else None)\<rparr>"

text \<open>
  \<^verbatim>\<open>getCommandVersion(command, versionFlag = '--version')\<close> is called with
  \<^verbatim>\<open>toolConfig.versionFlag\<close>; an undefined argument takes the default.
\<close>

definition checkToolInstalled :: "'s shell \<Rightarrow> string \<Rightarrow> 's world \<Rightarrow> ToolStatus \<times> 's world" where
  "checkToolInstalled sh toolName w =
     (let toolConfig = getToolConfig toolName
      in if toolConfig = Absent
         then (\<lparr>ts_name = Some toolName, ts_displayName = Some toolName,
                installed = False, version = None\<rparr>, w)
         else
          (let (inst, w1) = commandExists sh (template (js_prop commandToCheck toolConfig)) w;
               (ver, w2) =
                 (if inst
                  then getCommandVersion sh (template (js_prop commandToCheck toolConfig))
                         (case js_prop versionFlag toolConfig of None \<Rightarrow> ''--version'' | Some f \<Rightarrow> f) w1
                  else (None, w1))
           in (toolStatus toolConfig inst ver, w2)))"

subsection \<open>checkMultipleTools: the probes run interleaved\<close>

text \<open>
  \<^verbatim>\<open>Promise.all(toolNames.map((name) => checkToolInstalled(name)))\<close> runs every call up to
  its first \<^verbatim>\<open>await\<close> before any command has settled. By then the call has reached
  \<^verbatim>\<open>exec\<close> inside \<^verbatim>\<open>executeCommand\<close>, which starts the child process: the \<^verbatim>\<open>which\<close> commands
  are handed to the shell one after the other in the order of \<^verbatim>\<open>toolNames\<close>. A call is then
  waiting for its \<^verbatim>\<open>which\<close> command, waiting for its version command, or settled with its
  status. A command is handed to the shell at the point where the call reaches \<^verbatim>\<open>exec\<close>,
  and what the shell made of it stays with the waiting call until the command settles.
\<close>

datatype check_task =
    AwaitExists "ToolConfig js_member" bool
  | AwaitVersion "ToolConfig js_member" "string option"
  | Settled ToolStatus

text \<open>The part of \<^verbatim>\<open>checkToolInstalled\<close> that runs before its first \<^verbatim>\<open>await\<close> suspends it.\<close>

definition startCheck :: "'s shell \<Rightarrow> string \<Rightarrow> 's world \<Rightarrow> check_task \<times> 's world" where
  "startCheck sh toolName w =
     (let toolConfig = getToolConfig toolName
      in if toolConfig = Absent
         then (Settled \<lparr>ts_name = Some toolName, ts_displayName = Some toolName,
                        installed = False, version = None\<rparr>, w)
         else
          (let (inst, w1) = commandExists sh (template (js_prop commandToCheck toolConfig)) w
           in (AwaitExists toolConfig inst, w1)))"

text \<open>\<^verbatim>\<open>toolNames.map(...)\<close>: the calls are started from the first name to the last.\<close>

fun startChecks :: "'s shell \<Rightarrow> string list \<Rightarrow> 's world \<Rightarrow> check_task list \<times> 's world" where
  "startChecks sh [] w = ([], w)"
| "startChecks sh (toolName # toolNames) w =
     (let (task, w1) = startCheck sh toolName w;
          (tasks, w2) = startChecks sh toolNames w1
      in (task # tasks, w2))"

text \<open>
  The awaited command of a call settles and the call runs on to its next \<^verbatim>\<open>await\<close>, where
  its version command has been handed to the shell, or to its end.
\<close>

fun resumeCheck :: "'s shell \<Rightarrow> check_task \<Rightarrow> 's world \<Rightarrow> check_task \<times> 's world" where
  "resumeCheck sh (AwaitExists toolConfig inst) w =
     (if inst
      then (let (ver, w1) =
                  getCommandVersion sh (template (js_prop commandToCheck toolConfig))
                    (case js_prop versionFlag toolConfig of None \<Rightarrow> ''--version'' | Some f \<Rightarrow> f) w
            in (AwaitVersion toolConfig ver, w1))
      else (Settled (toolStatus toolConfig False None), w))"
| "resumeCheck sh (AwaitVersion toolConfig ver) w = (Settled (toolStatus toolConfig True ver), w)"
| "resumeCheck sh (Settled status) w = (Settled status, w)"

text \<open>
  A schedule lists, in the order in which the awaited commands settle, the position of the
  call each one belongs to. A position outside the list, or of a call that has settled,
  changes nothing.
\<close>

fun runSchedule ::
  "'s shell \<Rightarrow> nat list \<Rightarrow> check_task list \<Rightarrow> 's world \<Rightarrow> check_task list \<times> 's world" where
  "runSchedule sh [] tasks w = (tasks, w)"
| "runSchedule sh (i # schedule) tasks w =
     (if i < length tasks
      then (let (task, w') = resumeCheck sh (tasks ! i) w
            in runSchedule sh schedule (tasks[i := task]) w')
      else runSchedule sh schedule tasks w)"

fun settled :: "check_task \<Rightarrow> ToolStatus option" where
  "settled (Settled status) = Some status"
| "settled (AwaitExists toolConfig inst) = None"
| "settled (AwaitVersion toolConfig ver) = None"

text \<open>
  \<^verbatim>\<open>Promise.all\<close> fulfils once every call has settled, with the statuses at the positions of
  their calls; \<^term>\<open>None\<close> says that the schedule ended with a call still waiting.
\<close>

definition checkMultipleTools ::
  "'s shell \<Rightarrow> string list \<Rightarrow> nat list \<Rightarrow> 's world \<Rightarrow> (ToolStatus list \<times> 's world) option" where
  "checkMultipleTools sh toolNames schedule w =
     (let (started, w0) = startChecks sh toolNames w;
          (tasks, w') = runSchedule sh schedule started w0
      in if list_all (\<lambda>t. settled t \<noteq> None) tasks
         then Some (List.map_filter settled tasks, w')
         else None)"

definition checkAllTools ::
  "'s shell \<Rightarrow> nat list \<Rightarrow> 's world \<Rightarrow> (ToolStatus list \<times> 's world) option" where
  "checkAllTools sh schedule w = checkMultipleTools sh getAllToolNames schedule w"


section \<open>Example machines\<close>

text \<open>A Linux account with bash, and a macOS account with zsh.\<close>

definition linux_bash :: process where
  "linux_bash = \<lparr>platform = ''linux'', env_SHELL = Some ''/bin/bash'',
                  env_HOME = Some ''/home/dev'', env_USERPROFILE = None, env_NVM_DIR = None\<rparr>"

definition mac_zsh :: process where
  "mac_zsh = \<lparr>platform = ''darwin'', env_SHELL = Some ''/bin/zsh'',
               env_HOME = Some ''/Users/dev'', env_USERPROFILE = None, env_NVM_DIR = None\<rparr>"

text \<open>
  A small Debian-like shell. \<^const>\<open>sys\<close> lists the commands on the PATH. \<^verbatim>\<open>which\<close> answers
  from that list, installing git through apt-get adds git to it, the NodeSource set-up
  script and the rustup script succeed without putting a command on the PATH, git prints
  its version, and every other command fails.
\<close>

definition debian :: "string list shell" where
  "debian cmd ms w =
     (if take 6 cmd = ''which '' then
        (if drop 6 cmd \<in> set (sys w)
         then (Resolved (''/usr/bin/'' @ drop 6 cmd @ NL) [], w)
         else (Rejected (''Command failed: '' @ cmd) (Some []) (Some []), w))
      else if cmd = ''sudo apt-get install -y git'' then
        (Resolved (''Setting up git'' @ NL) [], w\<lparr>sys := ''git'' # sys w\<rparr>)
      else if cmd = ''curl -fsSL https://deb.nodesource.com/setup_lts.x | sudo -E bash -'' then
        (Resolved (''Repository configured'' @ NL) [], w)
      else if cmd = ''curl --proto '' @ DQ @ ''=https'' @ DQ @ '' --tlsv1.2 -sSf https://sh.rustup.rs | sh -s -- -y'' then
        (Resolved (''Rust is installed now.'' @ NL) [], w)
      else if cmd = ''git --version'' then
        (Resolved (''git version 2.43.0'' @ NL) [], w)
      else
        (Rejected (''Command failed: '' @ cmd) (Some []) (Some ''E: Unable to locate package''), w))"

definition bare_debian :: "string list world" where
  "bare_debian = \<lparr>files = Map.empty, denied = {}, invoked = [], sys = [''apt-get'']\<rparr>"

definition debian_with_git :: "string list world" where
  "debian_with_git = \<lparr>files = Map.empty, denied = {}, invoked = [], sys = [''git'', ''apt-get'']\<rparr>"

text \<open>A shell on which apt-get and pacman both exist, whatever the state of the machine.\<close>

definition apt_and_pacman :: "unit shell" where
  "apt_and_pacman cmd ms w =
     (if cmd = ''which apt-get'' then (Resolved ''/usr/bin/apt-get'' [], w)
      else if cmd = ''which pacman'' then (Resolved ''/usr/local/bin/pacman'' [], w)
      else (Rejected (''Command failed: '' @ cmd) (Some []) (Some []), w))"

text \<open>
  A shell on which git and node are installed and nothing else of the catalogue is,
  whatever the state of the machine.
\<close>

definition workstation :: "unit shell" where
  "workstation cmd ms w =
     (if cmd = ''which git'' then (Resolved (''/usr/bin/git'' @ NL) [], w)
      else if cmd = ''git --version'' then (Resolved (''git version 2.43.0'' @ NL) [], w)
      else if cmd = ''which node'' then (Resolved (''/usr/local/bin/node'' @ NL) [], w)
      else if cmd = ''node --version'' then (Resolved (''v20.11.0'' @ NL) [], w)
      else (Rejected (''Command failed: '' @ cmd) (Some []) (Some []), w))"

definition blank :: "unit world" where
  "blank = \<lparr>files = Map.empty, denied = {}, invoked = [], sys = ()\<rparr>"

text \<open>What \<^const>\<open>detectPackageManager\<close> returns where apt-get is the first command found.\<close>

definition apt_found :: PackageManagerInfo where
  "apt_found = \<lparr>pm_name = APT, command = ''apt-get'', installCmd = ''sudo apt-get install -y'',
                 updateCmd = ''sudo apt-get update && sudo apt-get upgrade -y'',
                 searchCmd = ''apt-cache search'', available = True\<rparr>"



section \<open>Vocabulary of the statements\<close>

text \<open>
  The descriptors that \<^const>\<open>detectPackageManager\<close> probes on a platform, in probing
  order: the entries of \<^const>\<open>managers\<close> under the keys of \<^const>\<open>checkOrder\<close>.
\<close>

definition candidates :: "process \<Rightarrow> PackageManagerInfo list" where
  "candidates env = List.map_filter (map_of managers) (checkOrder (detectOS env))"

text \<open>
  Running install-class commands one after the other: \<^term>\<open>Some w'\<close> when every one of them
  fails, \<open>w'\<close> being the machine after the last; \<^term>\<open>None\<close> when one of them succeeds.
\<close>

fun allFail :: "'s shell \<Rightarrow> string list \<Rightarrow> 's world \<Rightarrow> 's world option" where
  "allFail sh [] w = Some w"
| "allFail sh (c # cs) w =
     (let (r, w') = executeCommand sh c (Some 600000) w
      in if cmd_success r then None else allFail sh cs w')"

text \<open>
  Probing descriptors one after the other: \<^term>\<open>Some w'\<close> when no probe finds its command,
  \<open>w'\<close> being the machine after the last probe; \<^term>\<open>None\<close> when one of them does.
\<close>

fun probesFail :: "'s shell \<Rightarrow> PackageManagerInfo list \<Rightarrow> 's world \<Rightarrow> 's world option" where
  "probesFail sh [] w = Some w"
| "probesFail sh (m # ms) w =
     (let (found, w') = commandExists sh (command m) w
      in if found then None else probesFail sh ms w')"

text \<open>
  Whose status a call of \<^const>\<open>checkToolInstalled\<close> is working on (the \<^verbatim>\<open>name\<close> and
  \<^verbatim>\<open>displayName\<close> its status will carry), what its \<^verbatim>\<open>which\<close> command has found, and how
  many of its commands have yet to settle at most.
\<close>

fun subject :: "check_task \<Rightarrow> string option \<times> string option" where
  "subject (AwaitExists toolConfig inst) = (member_name toolConfig, js_prop displayName toolConfig)"
| "subject (AwaitVersion toolConfig ver) = (member_name toolConfig, js_prop displayName toolConfig)"
| "subject (Settled status) = (ts_name status, ts_displayName status)"

fun found :: "check_task \<Rightarrow> bool" where
  "found (AwaitExists toolConfig inst) = inst"
| "found (AwaitVersion toolConfig ver) = True"
| "found (Settled status) = installed status"

fun awaits :: "check_task \<Rightarrow> nat" where
  "awaits (AwaitExists toolConfig inst) = 2"
| "awaits (AwaitVersion toolConfig ver) = 1"
| "awaits (Settled status) = 0"

text \<open>
  The stages that a call of \<^const>\<open>checkToolInstalled\<close> for a name goes through when each of
  its commands meets the machine \<open>w\<close>: started, its \<^verbatim>\<open>which\<close> command settled, its version
  command settled.
\<close>

definition stages :: "'s shell \<Rightarrow> string \<Rightarrow> 's world \<Rightarrow> check_task list" where
  "stages sh toolName w =
     (let t0 = fst (startCheck sh toolName w);
          t1 = fst (resumeCheck sh t0 w);
          t2 = fst (resumeCheck sh t1 w)
      in [t0, t1, t2])"

text \<open>
  Looking for commands one after the other, each on the machine its predecessor left: what
  each \<^verbatim>\<open>which\<close> found, and the machine after the last.
\<close>

fun probeEach :: "'s shell \<Rightarrow> string list \<Rightarrow> 's world \<Rightarrow> bool list \<times> 's world" where
  "probeEach sh [] w = ([], w)"
| "probeEach sh (c # cs) w =
     (let (b, w1) = commandExists sh c w;
          (bs, w2) = probeEach sh cs w1
      in (b # bs, w2))"

text \<open>
  The calls of \<^const>\<open>installTool\<close> for a list of names, each on the machine its predecessor
  left, with the result each returned; the list ends before a call that is rejected.
\<close>

fun installRuns ::
  "'s shell \<Rightarrow> process \<Rightarrow> string list \<Rightarrow> 's world \<Rightarrow> (string \<times> InstallResult) list" where
  "installRuns sh env [] w = []"
| "installRuns sh env (n # ns) w =
     (case installTool sh env n None w of
        (Inr r, w') \<Rightarrow> (n, r) # installRuns sh env ns w'
      | (Inl e, w') \<Rightarrow> [])"

section \<open>Basic facts\<close>

lemma executeCommand_invoked:
  "invoked (snd (executeCommand sh c t w)) = invoked w @ [c]"
  by (simp add: executeCommand_def Let_def split: prod.splits exec_outcome.splits)

lemma commandExists_invoked:
  "invoked (snd (commandExists sh c w)) = invoked w @ [''which '' @ c]"
proof -
  have "snd (commandExists sh c w) = snd (executeCommand sh (''which '' @ c) None w)"
    by (simp add: commandExists_def split: prod.splits)
  then show ?thesis
    by (simp add: executeCommand_invoked)
qed

lemma getCommandVersion_invoked:
  "invoked (snd (getCommandVersion sh c f w)) = invoked w @ [c @ '' '' @ f]"
proof -
  have "snd (getCommandVersion sh c f w) = snd (executeCommand sh (c @ '' '' @ f) None w)"
    by (simp add: getCommandVersion_def split: prod.splits)
  then show ?thesis
    by (simp add: executeCommand_invoked)
qed

lemma trim_nonempty: "\<not> is_white a \<Longrightarrow> trim (a # s) \<noteq> []"
  by (simp add: trim_def dropWhile_append)

text \<open>The catalogue has eight entries, and each is filed under its own \<^const>\<open>name\<close>.\<close>

lemma getAllToolNames_eq:
  "getAllToolNames =
     [''python'', ''nodejs'', ''git'', ''docker'', ''java'', ''go'', ''rust'', ''flutter'']"
  by (simp add: getAllToolNames_def TOOL_CONFIGS_def)

lemma TOOL_CONFIGS_names: "map (name \<circ> snd) TOOL_CONFIGS = map fst TOOL_CONFIGS"
  by (simp add: TOOL_CONFIGS_def python_config_def nodejs_config_def git_config_def
      docker_config_def java_config_def go_config_def rust_config_def flutter_config_def)

lemma getToolConfig_git: "getToolConfig ''git'' = Own git_config"
  by (simp add: getToolConfig_def TOOL_CONFIGS_def)

lemma getToolConfig_nodejs: "getToolConfig ''nodejs'' = Own nodejs_config"
  by (simp add: getToolConfig_def TOOL_CONFIGS_def)

lemma getToolConfig_rust: "getToolConfig ''rust'' = Own rust_config"
  by (simp add: getToolConfig_def TOOL_CONFIGS_def)

lemma getToolConfig_flutter: "getToolConfig ''flutter'' = Own flutter_config"
  by (simp add: getToolConfig_def TOOL_CONFIGS_def)

lemma getToolConfig_Absent:
  assumes "toolName \<notin> set getAllToolNames" and "toolName \<notin> set object_prototype_keys"
  shows "getToolConfig toolName = Absent"
proof -
  from assms(1) have "map_of TOOL_CONFIGS toolName = None"
    by (simp add: getAllToolNames_def map_of_eq_None_iff)
  with assms(2) show ?thesis by (simp add: getToolConfig_def)
qed

subsection \<open>The example machines, one command at a time\<close>

lemma linux_bash_profile: "getShellConfigPath linux_bash = ''/home/dev/.bashrc''"
  by (simp add: getShellConfigPath_def getHomeDirectory_def js_or_def isMacOS_def linux_bash_def
      includes_str_def sublist_code prefix_code)

lemma debian_which:
  "commandExists debian c w =
     (c \<in> set (sys w), w\<lparr>invoked := invoked w @ [''which '' @ c]\<rparr>)"
  by (simp add: commandExists_def executeCommand_def debian_def js_or_def trim_nonempty is_white_def)

lemma debian_resolves:
  "executeCommand debian ''sudo apt-get install -y git'' t w =
     (\<lparr>stdout = ''Setting up git'', stderr = [], cmd_success = True, error = None\<rparr>,
      w\<lparr>sys := ''git'' # sys w, invoked := invoked w @ [''sudo apt-get install -y git'']\<rparr>)"
  "executeCommand debian ''curl -fsSL https://deb.nodesource.com/setup_lts.x | sudo -E bash -'' t w =
     (\<lparr>stdout = ''Repository configured'', stderr = [], cmd_success = True, error = None\<rparr>,
      w\<lparr>invoked := invoked w
          @ [''curl -fsSL https://deb.nodesource.com/setup_lts.x | sudo -E bash -'']\<rparr>)"
  \<open>executeCommand debian
      ''curl --proto "=https" --tlsv1.2 -sSf https://sh.rustup.rs | sh -s -- -y'' t w =
     (\<lparr>stdout = ''Rust is installed now.'', stderr = [], cmd_success = True, error = None\<rparr>,
      w\<lparr>invoked := invoked w
          @ [''curl --proto "=https" --tlsv1.2 -sSf https://sh.rustup.rs | sh -s -- -y'']\<rparr>)\<close>
  by (simp_all add: executeCommand_def debian_def trim_def is_white_def)

lemma debian_rejects:
  assumes "take 6 cmd \<noteq> ''which ''"
    and "cmd \<noteq> ''sudo apt-get install -y git''"
    and "cmd \<noteq> ''curl -fsSL https://deb.nodesource.com/setup_lts.x | sudo -E bash -''"
    and \<open>cmd \<noteq> ''curl --proto "=https" --tlsv1.2 -sSf https://sh.rustup.rs | sh -s -- -y''\<close>
    and "cmd \<noteq> ''git --version''"
  shows "executeCommand debian cmd t w =
     (\<lparr>stdout = [], stderr = ''E: Unable to locate package'', cmd_success = False,
       error = Some (''Command failed: '' @ cmd)\<rparr>,
      w\<lparr>invoked := invoked w @ [cmd]\<rparr>)"
  using assms by (simp add: executeCommand_def debian_def trim_def is_white_def js_or_def)

lemma debian_git_version:
  "getCommandVersion debian ''git'' ''--version'' w =
     (Some ''git version 2.43.0'', w\<lparr>invoked := invoked w @ [''git --version'']\<rparr>)"
  by (simp add: getCommandVersion_def executeCommand_def debian_def trim_def is_white_def
      first_line_def)

lemma debian_detect:
  "''apt-get'' \<in> set (sys w) \<Longrightarrow>
   detectPackageManager debian linux_bash w =
     (Some apt_found, w\<lparr>invoked := invoked w @ [''which apt-get'']\<rparr>)"
  by (simp add: detectPackageManager_def detectOS_def linux_bash_def managers_def
      checkPackageManager_def debian_which apt_found_def)


section \<open>The shell profile path\<close>

text \<open>
  Claim C9. \<^const>\<open>getShellConfigPath\<close> takes the process environment and no machine state,
  so it performs no I/O, and its result is fixed by the value of \<^verbatim>\<open>SHELL\<close> (the empty
  string when unset), by whether the platform is macOS, and by the home directory. The
  cases are tried in the order in which the claim lists them: a shell containing
  \<^verbatim>\<open>zsh\<close> gives \<^verbatim>\<open>.zshrc\<close> in the home directory; otherwise a shell containing \<^verbatim>\<open>bash\<close>
  gives \<^verbatim>\<open>.bash_profile\<close> on macOS and \<^verbatim>\<open>.bashrc\<close> elsewhere; every other shell value
  gives \<^verbatim>\<open>.profile\<close>.
\<close>

theorem getShellConfigPath_cases:
  "(includes_str (js_or (env_SHELL env) []) ''zsh''
      \<longrightarrow> getShellConfigPath env = getHomeDirectory env @ ''/.zshrc'')
   \<and> (\<not> includes_str (js_or (env_SHELL env) []) ''zsh''
        \<and> includes_str (js_or (env_SHELL env) []) ''bash''
      \<longrightarrow> getShellConfigPath env =
            getHomeDirectory env @ (if detectOS env = MACOS then ''/.bash_profile'' else ''/.bashrc''))
   \<and> (\<not> includes_str (js_or (env_SHELL env) []) ''zsh''
        \<and> \<not> includes_str (js_or (env_SHELL env) []) ''bash''
      \<longrightarrow> getShellConfigPath env = getHomeDirectory env @ ''/.profile'')
   \<and> (\<forall>env'. js_or (env_SHELL env') [] = js_or (env_SHELL env) []
          \<and> (detectOS env' = MACOS) = (detectOS env = MACOS)
          \<and> getHomeDirectory env' = getHomeDirectory env
        \<longrightarrow> getShellConfigPath env' = getShellConfigPath env)"
  by (simp add: getShellConfigPath_def isMacOS_def detectOS_def Let_def)

theorem getShellConfigPath_cases_witness:
  "getShellConfigPath mac_zsh = ''/Users/dev/.zshrc''
   \<and> getShellConfigPath linux_bash = ''/home/dev/.bashrc''
   \<and> getShellConfigPath (linux_bash\<lparr>env_SHELL := Some ''/usr/bin/fish''\<rparr>) = ''/home/dev/.profile''
   \<and> getShellConfigPath (linux_bash\<lparr>platform := ''darwin''\<rparr>) = ''/home/dev/.bash_profile''"
proof -
  have z: "includes_str (js_or (env_SHELL mac_zsh) []) ''zsh''"
    by (simp add: includes_str_def js_or_def mac_zsh_def sublist_code prefix_code)
  have b: "\<not> includes_str (js_or (env_SHELL linux_bash) []) ''zsh''
           \<and> includes_str (js_or (env_SHELL linux_bash) []) ''bash''"
    by (simp add: includes_str_def js_or_def linux_bash_def sublist_code prefix_code)
  have f: "\<not> includes_str (js_or (env_SHELL (linux_bash\<lparr>env_SHELL := Some ''/usr/bin/fish''\<rparr>)) []) ''zsh''
           \<and> \<not> includes_str (js_or (env_SHELL (linux_bash\<lparr>env_SHELL := Some ''/usr/bin/fish''\<rparr>)) []) ''bash''"
    by (simp add: includes_str_def js_or_def linux_bash_def sublist_code prefix_code)
  have d: "\<not> includes_str (js_or (env_SHELL (linux_bash\<lparr>platform := ''darwin''\<rparr>)) []) ''zsh''
           \<and> includes_str (js_or (env_SHELL (linux_bash\<lparr>platform := ''darwin''\<rparr>)) []) ''bash''"
    by (simp add: includes_str_def js_or_def linux_bash_def sublist_code prefix_code)
  have "getShellConfigPath mac_zsh = getHomeDirectory mac_zsh @ ''/.zshrc''"
    using getShellConfigPath_cases [of mac_zsh] z by blast
  moreover have "getShellConfigPath linux_bash =
      getHomeDirectory linux_bash
        @ (if detectOS linux_bash = MACOS then ''/.bash_profile'' else ''/.bashrc'')"
    using getShellConfigPath_cases [of linux_bash] b by blast
  moreover have "getShellConfigPath (linux_bash\<lparr>env_SHELL := Some ''/usr/bin/fish''\<rparr>) =
      getHomeDirectory (linux_bash\<lparr>env_SHELL := Some ''/usr/bin/fish''\<rparr>) @ ''/.profile''"
    using getShellConfigPath_cases [of "linux_bash\<lparr>env_SHELL := Some ''/usr/bin/fish''\<rparr>"] f
    by blast
  moreover have "getShellConfigPath (linux_bash\<lparr>platform := ''darwin''\<rparr>) =
      getHomeDirectory (linux_bash\<lparr>platform := ''darwin''\<rparr>)
        @ (if detectOS (linux_bash\<lparr>platform := ''darwin''\<rparr>) = MACOS
           then ''/.bash_profile'' else ''/.bashrc'')"
    using getShellConfigPath_cases [of "linux_bash\<lparr>platform := ''darwin''\<rparr>"] d by blast
  ultimately show ?thesis
    by (simp add: getHomeDirectory_def js_or_def detectOS_def mac_zsh_def linux_bash_def)
qed


section \<open>Package manager detection\<close>

lemma checkOrder_keys: "n \<in> set (checkOrder os) \<Longrightarrow> map_of managers n \<noteq> None"
  by (cases os) (auto simp: managers_def)

lemma candidates_names:
  "map pm_name (candidates env) =
     (if platform env = ''darwin'' then [HOMEBREW]
      else if platform env = ''linux'' then [APT, DNF, YUM, PACMAN, ZYPPER]
      else [])"
  by (simp add: candidates_def detectOS_def managers_def List.map_filter_simps)

text \<open>
  The loop, on any shell: either every probe fails and the result is none, or the
  list splits at the first candidate whose probe succeeds and that candidate is returned.
\<close>

lemma probeManagers_run:
  assumes keys: "\<forall>n \<in> set names. map_of managers n \<noteq> None"
  shows "(fst (probeManagers sh names w) = None
            \<and> probesFail sh (List.map_filter (map_of managers) names) w
                = Some (snd (probeManagers sh names w)))
         \<or> (\<exists>pre m post wk. List.map_filter (map_of managers) names = pre @ m # post
               \<and> probesFail sh pre w = Some wk
               \<and> commandExists sh (command m) wk = (True, snd (probeManagers sh names w))
               \<and> fst (probeManagers sh names w) = Some (m\<lparr>available := True\<rparr>))"
  using keys
proof (induction names arbitrary: w)
  case Nil
  show ?case by (simp add: List.map_filter_simps)
next
  case (Cons n names)
  from Cons.prems obtain m where m: "map_of managers n = Some m" by auto
  obtain b w' where p: "commandExists sh (command m) w = (b, w')"
    by (cases "commandExists sh (command m) w")
  show ?case
  proof (cases b)
    case True
    have "List.map_filter (map_of managers) (n # names)
            = [] @ m # List.map_filter (map_of managers) names
          \<and> probesFail sh [] w = Some w
          \<and> commandExists sh (command m) w = (True, snd (probeManagers sh (n # names) w))
          \<and> fst (probeManagers sh (n # names) w) = Some (m\<lparr>available := True\<rparr>)"
      using True m p by (simp add: checkPackageManager_def List.map_filter_simps)
    then show ?thesis by blast
  next
    case False
    have step: "probeManagers sh (n # names) w = probeManagers sh names w'"
      using False m p by (simp add: checkPackageManager_def)
    have keys': "\<forall>n \<in> set names. map_of managers n \<noteq> None"
      using Cons.prems by simp
    from Cons.IH [OF keys', of w'] show ?thesis
    proof
      assume "fst (probeManagers sh names w') = None
            \<and> probesFail sh (List.map_filter (map_of managers) names) w'
                = Some (snd (probeManagers sh names w'))"
      then show ?thesis
        using step False m p by (simp add: List.map_filter_simps)
    next
      assume "\<exists>pre m post wk. List.map_filter (map_of managers) names = pre @ m # post
               \<and> probesFail sh pre w' = Some wk
               \<and> commandExists sh (command m) wk = (True, snd (probeManagers sh names w'))
               \<and> fst (probeManagers sh names w') = Some (m\<lparr>available := True\<rparr>)"
      then obtain pre m' post wk where h:
        "List.map_filter (map_of managers) names = pre @ m' # post"
        "probesFail sh pre w' = Some wk"
        "commandExists sh (command m') wk = (True, snd (probeManagers sh names w'))"
        "fst (probeManagers sh names w') = Some (m'\<lparr>available := True\<rparr>)" by blast
      have "List.map_filter (map_of managers) (n # names) = (m # pre) @ m' # post
          \<and> probesFail sh (m # pre) w = Some wk
          \<and> commandExists sh (command m') wk = (True, snd (probeManagers sh (n # names) w))
          \<and> fst (probeManagers sh (n # names) w) = Some (m'\<lparr>available := True\<rparr>)"
        using h step False m p by (simp add: List.map_filter_simps)
      then show ?thesis by blast
    qed
  qed
qed

text \<open>The loop on a shell whose probes report a fixed fact \<open>ex\<close> of the machine.\<close>

lemma probeManagers_find:
  assumes ex: "\<forall>c w. fst (commandExists sh c w) = ex c"
    and keys: "\<forall>n \<in> set names. map_of managers n \<noteq> None"
  shows "fst (probeManagers sh names w) =
           map_option (\<lambda>m. m\<lparr>available := True\<rparr>)
             (find (\<lambda>m. ex (command m)) (List.map_filter (map_of managers) names))"
  using keys
proof (induction names arbitrary: w)
  case Nil
  show ?case by (simp add: List.map_filter_simps)
next
  case (Cons n names)
  from Cons.prems obtain m where m: "map_of managers n = Some m" by auto
  obtain b w' where p: "commandExists sh (command m) w = (b, w')"
    by (cases "commandExists sh (command m) w")
  have b: "b = ex (command m)"
    using ex p by (metis fst_conv)
  show ?case
  proof (cases b)
    case True
    with m p b show ?thesis
      by (simp add: checkPackageManager_def List.map_filter_simps)
  next
    case False
    have "fst (probeManagers sh names w') =
            map_option (\<lambda>m. m\<lparr>available := True\<rparr>)
              (find (\<lambda>m. ex (command m)) (List.map_filter (map_of managers) names))"
      using Cons.IH [of w'] Cons.prems by simp
    with False m p b show ?thesis
      by (simp add: checkPackageManager_def List.map_filter_simps)
  qed
qed

lemma probeManagers_invoked:
  assumes ex: "\<forall>c w. fst (commandExists sh c w) = ex c"
    and keys: "\<forall>n \<in> set names. map_of managers n \<noteq> None"
  shows "invoked (snd (probeManagers sh names w)) =
           invoked w @ map (\<lambda>m. ''which '' @ command m)
             (takeWhile (\<lambda>m. \<not> ex (command m)) (List.map_filter (map_of managers) names)
              @ take 1 (dropWhile (\<lambda>m. \<not> ex (command m))
                          (List.map_filter (map_of managers) names)))"
  using keys
proof (induction names arbitrary: w)
  case Nil
  show ?case by (simp add: List.map_filter_simps)
next
  case (Cons n names)
  from Cons.prems obtain m where m: "map_of managers n = Some m" by auto
  obtain b w' where p: "commandExists sh (command m) w = (b, w')"
    by (cases "commandExists sh (command m) w")
  have b: "b = ex (command m)"
    using ex p by (metis fst_conv)
  have w': "invoked w' = invoked w @ [''which '' @ command m]"
    using commandExists_invoked [of sh "command m" w] p by simp
  show ?case
  proof (cases b)
    case True
    with m p b w' show ?thesis
      by (simp add: checkPackageManager_def List.map_filter_simps)
  next
    case False
    have "invoked (snd (probeManagers sh names w')) =
           invoked w' @ map (\<lambda>m. ''which '' @ command m)
             (takeWhile (\<lambda>m. \<not> ex (command m)) (List.map_filter (map_of managers) names)
              @ take 1 (dropWhile (\<lambda>m. \<not> ex (command m))
                          (List.map_filter (map_of managers) names)))"
      using Cons.IH [of w'] Cons.prems by simp
    with False m p b w' show ?thesis
      by (simp add: checkPackageManager_def List.map_filter_simps)
  qed
qed

text \<open>
  Claim C4. The candidates are homebrew alone on macOS, then apt, dnf, yum, pacman, zypper
  in that order on Linux, and none on any other platform. On every shell,
  \<^const>\<open>detectPackageManager\<close> probes them in that order: either every probe fails (so also
  when the list is empty) and it returns none, or it returns the first candidate whose
  probe succeeds, after the probes of the candidates before it have failed, with every
  field as in the table and \<^const>\<open>available\<close> set. Where the existence of a command is a
  fact \<open>ex\<close> of the machine that the probes report and do not change, the result is the
  first candidate in the list that exists, and the commands run are the probes up to and
  including that candidate's: a later candidate that exists as well is neither probed nor
  returned.
\<close>

theorem detectPackageManager_first_match:
  "map pm_name (candidates env) =
           (if platform env = ''darwin'' then [HOMEBREW]
            else if platform env = ''linux'' then [APT, DNF, YUM, PACMAN, ZYPPER]
            else [])
   \<and> ((fst (detectPackageManager sh env w) = None
          \<and> probesFail sh (candidates env) w = Some (snd (detectPackageManager sh env w)))
        \<or> (\<exists>pre m post wk. candidates env = pre @ m # post
              \<and> probesFail sh pre w = Some wk
              \<and> commandExists sh (command m) wk = (True, snd (detectPackageManager sh env w))
              \<and> fst (detectPackageManager sh env w) = Some (m\<lparr>available := True\<rparr>)))
   \<and> ((\<forall>c u. fst (commandExists sh c u) = ex c)
        \<longrightarrow> fst (detectPackageManager sh env w) =
              map_option (\<lambda>m. m\<lparr>available := True\<rparr>) (find (\<lambda>m. ex (command m)) (candidates env))
            \<and> invoked (snd (detectPackageManager sh env w)) =
              invoked w @ map (\<lambda>m. ''which '' @ command m)
                (takeWhile (\<lambda>m. \<not> ex (command m)) (candidates env)
                 @ take 1 (dropWhile (\<lambda>m. \<not> ex (command m)) (candidates env))))"
proof -
  have keys: "\<forall>n \<in> set (checkOrder (detectOS env)). map_of managers n \<noteq> None"
    using checkOrder_keys by blast
  have run: "(fst (detectPackageManager sh env w) = None
          \<and> probesFail sh (candidates env) w = Some (snd (detectPackageManager sh env w)))
        \<or> (\<exists>pre m post wk. candidates env = pre @ m # post
              \<and> probesFail sh pre w = Some wk
              \<and> commandExists sh (command m) wk = (True, snd (detectPackageManager sh env w))
              \<and> fst (detectPackageManager sh env w) = Some (m\<lparr>available := True\<rparr>))"
    using probeManagers_run [OF keys, of sh w]
    by (simp add: detectPackageManager_def candidates_def)
  have stable: "(\<forall>c u. fst (commandExists sh c u) = ex c)
        \<longrightarrow> fst (detectPackageManager sh env w) =
              map_option (\<lambda>m. m\<lparr>available := True\<rparr>) (find (\<lambda>m. ex (command m)) (candidates env))
            \<and> invoked (snd (detectPackageManager sh env w)) =
              invoked w @ map (\<lambda>m. ''which '' @ command m)
                (takeWhile (\<lambda>m. \<not> ex (command m)) (candidates env)
                 @ take 1 (dropWhile (\<lambda>m. \<not> ex (command m)) (candidates env)))"
  proof
    assume a: "\<forall>c u. fst (commandExists sh c u) = ex c"
    show "fst (detectPackageManager sh env w) =
              map_option (\<lambda>m. m\<lparr>available := True\<rparr>) (find (\<lambda>m. ex (command m)) (candidates env))
            \<and> invoked (snd (detectPackageManager sh env w)) =
              invoked w @ map (\<lambda>m. ''which '' @ command m)
                (takeWhile (\<lambda>m. \<not> ex (command m)) (candidates env)
                 @ take 1 (dropWhile (\<lambda>m. \<not> ex (command m)) (candidates env)))"
      using probeManagers_find [OF a keys, of w] probeManagers_invoked [OF a keys, of w]
      by (simp add: detectPackageManager_def candidates_def)
  qed
  from candidates_names run stable show ?thesis by blast
qed

theorem detectPackageManager_first_match_witness:
  "fst (detectPackageManager apt_and_pacman linux_bash blank) =
     Some \<lparr>pm_name = APT, command = ''apt-get'', installCmd = ''sudo apt-get install -y'',
           updateCmd = ''sudo apt-get update && sudo apt-get upgrade -y'',
           searchCmd = ''apt-cache search'', available = True\<rparr>
   \<and> invoked (snd (detectPackageManager apt_and_pacman linux_bash blank)) = [''which apt-get'']"
proof -
  have h: "\<forall>c w. fst (commandExists apt_and_pacman c w) = (c = ''apt-get'' \<or> c = ''pacman'')"
    by (simp add: commandExists_def executeCommand_def apt_and_pacman_def trim_def is_white_def
        js_or_def Let_def)
  have "fst (detectPackageManager apt_and_pacman linux_bash blank) =
              map_option (\<lambda>m. m\<lparr>available := True\<rparr>)
                (find (\<lambda>m. command m = ''apt-get'' \<or> command m = ''pacman'') (candidates linux_bash))
            \<and> invoked (snd (detectPackageManager apt_and_pacman linux_bash blank)) =
              invoked blank @ map (\<lambda>m. ''which '' @ command m)
                (takeWhile (\<lambda>m. \<not> (command m = ''apt-get'' \<or> command m = ''pacman''))
                   (candidates linux_bash)
                 @ take 1 (dropWhile (\<lambda>m. \<not> (command m = ''apt-get'' \<or> command m = ''pacman''))
                             (candidates linux_bash)))"
    using detectPackageManager_first_match [of linux_bash apt_and_pacman blank
        "\<lambda>c. c = ''apt-get'' \<or> c = ''pacman''"] h by blast
  then show ?thesis
    by (simp add: candidates_def detectOS_def linux_bash_def managers_def blank_def
        List.map_filter_simps)
qed


section \<open>Shell profile configuration\<close>

lemma marker_in_configContent:
  assumes "envVars toolConfig = Some vars"
  shows "includes_str (old @ configContent toolConfig) (config_marker toolConfig)"
proof -
  from assms obtain rest where "configContent toolConfig = NL @ config_marker toolConfig @ rest"
    by (simp add: configContent_def)
  then have "old @ configContent toolConfig = (old @ NL) @ config_marker toolConfig @ rest"
    by simp
  then show ?thesis
    unfolding includes_str_def sublist_def by blast
qed

text \<open>
  For a descriptor that carries environment variables the block starts with the marker,
  and a second call in succession finds it: it returns false and leaves the machine as it
  is.
\<close>

lemma configureShellEnvironment_again:
  assumes "envVars toolConfig = Some vars"
  shows "configureShellEnvironment env toolConfig (snd (configureShellEnvironment env toolConfig w))
         = (False, snd (configureShellEnvironment env toolConfig w))"
proof (cases "fst (configureShellEnvironment env toolConfig w)")
  case False
  then have same: "snd (configureShellEnvironment env toolConfig w) = w"
    by (auto simp: configureShellEnvironment_def Let_def split: if_splits option.splits)
  from False have "configureShellEnvironment env toolConfig w = (False, w)"
    using same by (metis prod.collapse)
  with same show ?thesis by simp
next
  case True
  let ?p = "getShellConfigPath env"
  from True obtain w' where ap: "appendFile ?p (configContent toolConfig) w = Some w'"
    and res: "configureShellEnvironment env toolConfig w = (True, w')"
    and ne: "configContent toolConfig \<noteq> []"
    by (auto simp: configureShellEnvironment_def Let_def split: if_splits option.splits)
  from ap have nd: "?p \<notin> denied w"
    and w': "w' = w\<lparr>files := (files w)(?p \<mapsto>
               (case files w ?p of None \<Rightarrow> [] | Some old \<Rightarrow> old) @ configContent toolConfig)\<rparr>"
    by (auto simp: appendFile_def split: if_splits)
  have "readFile ?p w' =
      Some ((case files w ?p of None \<Rightarrow> [] | Some old \<Rightarrow> old) @ configContent toolConfig)"
    using nd w' by (simp add: readFile_def)
  then have "includes_str (case readFile ?p w' of None \<Rightarrow> [] | Some c \<Rightarrow> c)
               (config_marker toolConfig)"
    using marker_in_configContent [OF assms] by simp
  then have "configureShellEnvironment env toolConfig w' = (False, w')"
    using ne by (simp add: configureShellEnvironment_def)
  with res show ?thesis by simp
qed

text \<open>
  Claim C1. The catalogue entry for Rust carries a \<^const>\<open>shellConfig\<close> snippet and no
  environment variables, so the block built for it has no marker line. Starting without a
  profile file, the first call of \<^const>\<open>configureShellEnvironment\<close> writes the snippet and
  returns true; the second call in succession finds no marker, returns true again and
  appends the snippet a second time. The profile then holds the snippet twice and the
  marker of the tool not at all.
\<close>

theorem configureShellEnvironment_rust_twice:
  "configureShellEnvironment linux_bash rust_config bare_debian =
     (True, bare_debian\<lparr>files := [''/home/dev/.bashrc'' \<mapsto> ''source $HOME/.cargo/env'' @ NL]\<rparr>)
   \<and> configureShellEnvironment linux_bash rust_config
       (bare_debian\<lparr>files := [''/home/dev/.bashrc'' \<mapsto> ''source $HOME/.cargo/env'' @ NL]\<rparr>) =
     (True, bare_debian\<lparr>files := [''/home/dev/.bashrc'' \<mapsto>
         ''source $HOME/.cargo/env'' @ NL @ ''source $HOME/.cargo/env'' @ NL]\<rparr>)
   \<and> \<not> includes_str (''source $HOME/.cargo/env'' @ NL @ ''source $HOME/.cargo/env'' @ NL)
         (config_marker rust_config)"
  by (simp add: configureShellEnvironment_def configContent_def config_marker_def
      readFile_def appendFile_def includes_str_def linux_bash_profile rust_config_def
      bare_debian_def sublist_code prefix_code)


section \<open>installTool\<close>

subsection \<open>A tool that is already present\<close>

text \<open>
  Claim C3. For every tool \<open>x\<close> of the catalogue: when the existence probe for the verify
  command of \<open>x\<close> answers true at the moment \<^const>\<open>installTool\<close> is called, the call
  returns a result with \<^const>\<open>success\<close> true, and the only command it hands to the shell
  is that probe: no install command runs.
\<close>

theorem installTool_already_installed:
  assumes "getToolConfig x = Own config"
    and "fst (commandExists sh (commandToCheck config) w)"
  shows "fst (installTool sh env x opts w) =
           Inr \<lparr>success = True, message = displayName config @ '' is already installed'',
                details = None, needsRestart = None\<rparr>
         \<and> invoked (snd (installTool sh env x opts w))
             = invoked w @ [''which '' @ commandToCheck config]"
proof -
  obtain b w1 where p: "commandExists sh (commandToCheck config) w = (b, w1)"
    by (cases "commandExists sh (commandToCheck config) w")
  with assms(2) have b: "b" by simp
  have w1: "invoked w1 = invoked w @ [''which '' @ commandToCheck config]"
    using commandExists_invoked [of sh "commandToCheck config" w] p by simp
  show ?thesis
    using assms(1) p b w1
    by (simp add: installTool_def js_prop_def template_def)
qed

theorem installTool_already_installed_witness:
  "fst (installTool debian linux_bash ''git'' None debian_with_git) =
     Inr \<lparr>success = True, message = ''Git is already installed'',
          details = None, needsRestart = None\<rparr>
   \<and> invoked (snd (installTool debian linux_bash ''git'' None debian_with_git)) = [''which git'']"
proof -
  have e: "fst (commandExists debian (commandToCheck git_config) debian_with_git)"
    by (simp add: debian_which debian_with_git_def git_config_def)
  show ?thesis
    using installTool_already_installed [OF getToolConfig_git e, of linux_bash None]
    by (simp add: git_config_def debian_with_git_def)
qed

subsection \<open>The install step and the final verification\<close>

lemma tryAlternatives_allFail:
  "allFail sh alts w = Some w' \<Longrightarrow> tryAlternatives sh alts w = ((False, []), w')"
  by (induction alts arbitrary: w) (auto split: prod.splits if_splits)

lemma tryAlternatives_first:
  "allFail sh pre w = Some wk \<Longrightarrow> executeCommand sh c (Some 600000) wk = (ar, w') \<Longrightarrow>
   cmd_success ar \<Longrightarrow> tryAlternatives sh (pre @ c # post) w = ((True, stdout ar), w')"
  by (induction pre arbitrary: w) (auto split: prod.splits if_splits)

text \<open>The two cases are all there is: the loop ends in one of them.\<close>

lemma tryAlternatives_cases:
  "(\<exists>w'. allFail sh alts w = Some w' \<and> tryAlternatives sh alts w = ((False, []), w'))
   \<or> (\<exists>pre c post wk ar w'. alts = pre @ c # post \<and> allFail sh pre w = Some wk
         \<and> executeCommand sh c (Some 600000) wk = (ar, w') \<and> cmd_success ar
         \<and> tryAlternatives sh alts w = ((True, stdout ar), w'))"
proof (induction alts arbitrary: w)
  case Nil
  show ?case by simp
next
  case (Cons a alts)
  obtain r w1 where e: "executeCommand sh a (Some 600000) w = (r, w1)"
    by (cases "executeCommand sh a (Some 600000) w")
  show ?case
  proof (cases "cmd_success r")
    case True
    have "a # alts = [] @ a # alts \<and> allFail sh [] w = Some w
          \<and> executeCommand sh a (Some 600000) w = (r, w1) \<and> cmd_success r
          \<and> tryAlternatives sh (a # alts) w = ((True, stdout r), w1)"
      using e True by simp
    then show ?thesis by blast
  next
    case False
    from Cons.IH [of w1] show ?thesis
    proof
      assume "\<exists>w'. allFail sh alts w1 = Some w' \<and> tryAlternatives sh alts w1 = ((False, []), w')"
      then show ?thesis using e False by simp
    next
      assume "\<exists>pre c post wk ar w'. alts = pre @ c # post \<and> allFail sh pre w1 = Some wk
         \<and> executeCommand sh c (Some 600000) wk = (ar, w') \<and> cmd_success ar
         \<and> tryAlternatives sh alts w1 = ((True, stdout ar), w')"
      then obtain pre c post wk ar w' where h: "alts = pre @ c # post"
         "allFail sh pre w1 = Some wk"
         "executeCommand sh c (Some 600000) wk = (ar, w')" "cmd_success ar"
         "tryAlternatives sh alts w1 = ((True, stdout ar), w')" by blast
      have "a # alts = (a # pre) @ c # post \<and> allFail sh (a # pre) w = Some wk
            \<and> executeCommand sh c (Some 600000) wk = (ar, w') \<and> cmd_success ar
            \<and> tryAlternatives sh (a # alts) w = ((True, stdout ar), w')"
        using h e False by simp
      then show ?thesis by blast
    qed
  qed
qed

lemma allFail_invoked: "allFail sh cs w = Some w' \<Longrightarrow> invoked w' = invoked w @ cs"
proof (induction cs arbitrary: w)
  case Nil
  then show ?case by simp
next
  case (Cons c cs)
  obtain r w1 where e: "executeCommand sh c (Some 600000) w = (r, w1)"
    by (cases "executeCommand sh c (Some 600000) w")
  have i: "invoked w1 = invoked w @ [c]"
    using executeCommand_invoked [of sh c "Some 600000" w] e by simp
  from Cons.prems e have "allFail sh cs w1 = Some w'"
    by (simp split: if_splits)
  from Cons.IH [OF this] i show ?case by simp
qed

text \<open>Lines 98 to 135: how a call reaches the \<^verbatim>\<open>try\<close> block.\<close>

lemma installTool_reaches_installWith:
  assumes "getToolConfig x = Own config"
    and "commandExists sh (commandToCheck config) w = (False, w1)"
    and "detectPackageManager sh env w1 = (Some pm, w2)"
    and "map_of (installMethods config) (pm_name pm) = Some m"
  shows "installTool sh env x opts w =
           (Inr (fst (installWith sh env config pm m w2)), snd (installWith sh env config pm m w2))"
  using assms by (simp add: installTool_def js_prop_def template_def split: prod.splits)

lemma soft_message_differs:
  "d @ '' installation completed but verification failed'' \<noteq> ''Failed to install '' @ d"
proof
  assume "d @ '' installation completed but verification failed'' = ''Failed to install '' @ d"
  then have "length (d @ '' installation completed but verification failed'')
             = length (''Failed to install '' @ d)" by (rule arg_cong)
  then show False by simp
qed

lemmas finish_defs = installWith_def installStep_def finishInstall_def postInstall_def
  shellStep_def configureShellEnvironment_def configContent_def config_marker_def truthy_def
  readFile_def appendFile_def includes_str_def linux_bash_profile js_or_def

text \<open>
  Node.js on the bare machine: apt-get cannot install it, the first alternative (the
  NodeSource set-up script) succeeds, the loop stops there, and \<^verbatim>\<open>node\<close> is still
  missing when the installation is verified.
\<close>

lemma debian_nodejs_run:
  "installTool debian linux_bash ''nodejs'' None bare_debian =
     (Inr \<lparr>success = False,
           message = ''Node.js installation completed but verification failed'',
           details = Some ''The tool may require a shell restart to be available'',
           needsRestart = Some True\<rparr>,
      bare_debian\<lparr>invoked := [''which node'', ''which apt-get'',
         ''sudo apt-get install -y nodejs npm'',
         ''curl -fsSL https://deb.nodesource.com/setup_lts.x | sudo -E bash -'',
         ''which node'']\<rparr>)"
proof -
  have e: "commandExists debian (commandToCheck nodejs_config) bare_debian =
        (False, bare_debian\<lparr>invoked := [''which node'']\<rparr>)"
    by (simp add: debian_which nodejs_config_def bare_debian_def)
  have d: "detectPackageManager debian linux_bash (bare_debian\<lparr>invoked := [''which node'']\<rparr>) =
        (Some apt_found, bare_debian\<lparr>invoked := [''which node'', ''which apt-get'']\<rparr>)"
    by (simp add: debian_detect bare_debian_def)
  have m: "map_of (installMethods nodejs_config) (pm_name apt_found) =
        Some \<lparr>packageManager = APT, packageName = ''nodejs npm'',
          alternativeCommands =
            Some [''curl -fsSL https://deb.nodesource.com/setup_lts.x | sudo -E bash -'',
                  ''sudo apt-get install -y nodejs''],
          postInstallSteps = None\<rparr>"
    by (simp add: nodejs_config_def apt_found_def)
  show ?thesis
    unfolding installTool_reaches_installWith [OF getToolConfig_nodejs e d m]
    by (simp add: finish_defs debian_rejects debian_resolves debian_which apt_found_def
        nodejs_config_def bare_debian_def)
qed

text \<open>
  Claim C2, as the claim states it, fails on that run: the primary command fails, an
  alternative succeeds, and yet the returned result is not a success and its details are
  not the output of the alternative.
\<close>

theorem installTool_alternative_unverified:
  "\<not> cmd_success (fst (executeCommand debian ''sudo apt-get install -y nodejs npm'' (Some 600000)
        (bare_debian\<lparr>invoked := [''which node'', ''which apt-get'']\<rparr>)))
   \<and> cmd_success (fst (executeCommand debian
        ''curl -fsSL https://deb.nodesource.com/setup_lts.x | sudo -E bash -'' (Some 600000)
        (bare_debian\<lparr>invoked := [''which node'', ''which apt-get'',
            ''sudo apt-get install -y nodejs npm'']\<rparr>)))
   \<and> invoked (snd (installTool debian linux_bash ''nodejs'' None bare_debian)) =
        [''which node'', ''which apt-get'', ''sudo apt-get install -y nodejs npm'',
         ''curl -fsSL https://deb.nodesource.com/setup_lts.x | sudo -E bash -'', ''which node'']
   \<and> fst (installTool debian linux_bash ''nodejs'' None bare_debian) =
        Inr \<lparr>success = False,
             message = ''Node.js installation completed but verification failed'',
             details = Some ''The tool may require a shell restart to be available'',
             needsRestart = Some True\<rparr>"
proof (intro conjI)
  show "\<not> cmd_success (fst (executeCommand debian ''sudo apt-get install -y nodejs npm''
        (Some 600000) (bare_debian\<lparr>invoked := [''which node'', ''which apt-get'']\<rparr>)))"
    by (simp add: debian_rejects)
  show "cmd_success (fst (executeCommand debian
        ''curl -fsSL https://deb.nodesource.com/setup_lts.x | sudo -E bash -'' (Some 600000)
        (bare_debian\<lparr>invoked := [''which node'', ''which apt-get'',
            ''sudo apt-get install -y nodejs npm'']\<rparr>)))"
    by (simp add: debian_resolves)
  show "invoked (snd (installTool debian linux_bash ''nodejs'' None bare_debian)) =
        [''which node'', ''which apt-get'', ''sudo apt-get install -y nodejs npm'',
         ''curl -fsSL https://deb.nodesource.com/setup_lts.x | sudo -E bash -'', ''which node'']"
    by (simp add: debian_nodejs_run)
  show "fst (installTool debian linux_bash ''nodejs'' None bare_debian) =
        Inr \<lparr>success = False,
             message = ''Node.js installation completed but verification failed'',
             details = Some ''The tool may require a shell restart to be available'',
             needsRestart = Some True\<rparr>"
    by (simp add: debian_nodejs_run)
qed

text \<open>
  Claim C2, amended. Let \<open>x\<close> be a tool of the catalogue that is not present, installed
  through the method \<open>m\<close> of the detected package manager, and let the primary install
  command fail. If some alternative command succeeds, the alternatives before it having
  failed in order, the later ones are not run and the install step has succeeded with the
  standard output of that alternative as its details; the returned result is then the one
  of the final verification: a success whose \<^const>\<open>details\<close> are that standard output when
  the re-probe finds the tool or the shell profile was written, and the verification
  failure otherwise. If every alternative fails as well (or there is none), the returned
  result is a failure whose \<^const>\<open>details\<close> are the error message of the primary attempt, or
  its standard error when that message is empty, and nothing of any alternative.
\<close>

theorem installTool_alternatives:
  assumes "getToolConfig x = Own config"
    and "commandExists sh (commandToCheck config) w = (False, w1)"
    and "detectPackageManager sh env w1 = (Some pm, w2)"
    and "map_of (installMethods config) (pm_name pm) = Some m"
    and "executeCommand sh (installCmd pm @ '' '' @ packageName m) (Some 600000) w2
           = (packageResult, w3)"
    and "\<not> cmd_success packageResult"
    and "alts = (case alternativeCommands m of None \<Rightarrow> [] | Some a \<Rightarrow> a)"
  shows "(alts = pre @ c # post \<and> allFail sh pre w3 = Some wk
          \<and> executeCommand sh c (Some 600000) wk = (altResult, w4) \<and> cmd_success altResult
          \<and> shellStep env config (postInstall sh m w4) = (restart, w5)
          \<and> commandExists sh (commandToCheck config) w5 = (verified, w6)
          \<longrightarrow> installTool sh env x opts w =
                (Inr (if verified \<or> restart
                      then \<lparr>success = True,
                            message = displayName config @ '' installed successfully'',
                            details = Some (stdout altResult),
                            needsRestart = Some restart\<rparr>
                      else \<lparr>success = False,
                            message = displayName config
                                      @ '' installation completed but verification failed'',
                            details = Some ''The tool may require a shell restart to be available'',
                            needsRestart = Some True\<rparr>), w6))
       \<and> (allFail sh alts w3 = Some w4
          \<longrightarrow> installTool sh env x opts w =
                (Inr \<lparr>success = False, message = ''Failed to install '' @ displayName config,
                      details = Some (js_or (error packageResult) (stderr packageResult)),
                      needsRestart = None\<rparr>, w4))"
proof (intro conjI impI)
  assume a: "alts = pre @ c # post \<and> allFail sh pre w3 = Some wk
          \<and> executeCommand sh c (Some 600000) wk = (altResult, w4) \<and> cmd_success altResult
          \<and> shellStep env config (postInstall sh m w4) = (restart, w5)
          \<and> commandExists sh (commandToCheck config) w5 = (verified, w6)"
  then have t: "tryAlternatives sh alts w3 = ((True, stdout altResult), w4)"
    using tryAlternatives_first [of sh pre w3 wk c altResult w4 post] by simp
  from a assms(7) have "alternativeCommands m = Some alts"
    by (cases "alternativeCommands m") auto
  with t have "installStep sh pm m w2 = ((True, stdout altResult, packageResult), w4)"
    using assms(5,6) by (simp add: installStep_def)
  then have "installWith sh env config pm m w2
               = finishInstall sh env config m (stdout altResult) w4"
    by (simp add: installWith_def)
  then show "installTool sh env x opts w =
                (Inr (if verified \<or> restart
                      then \<lparr>success = True,
                            message = displayName config @ '' installed successfully'',
                            details = Some (stdout altResult),
                            needsRestart = Some restart\<rparr>
                      else \<lparr>success = False,
                            message = displayName config
                                      @ '' installation completed but verification failed'',
                            details = Some ''The tool may require a shell restart to be available'',
                            needsRestart = Some True\<rparr>), w6)"
    using installTool_reaches_installWith [OF assms(1-4), of opts] a
    by (simp add: finishInstall_def)
next
  assume f: "allFail sh alts w3 = Some w4"
  then have t: "tryAlternatives sh alts w3 = ((False, []), w4)"
    by (rule tryAlternatives_allFail)
  have "installStep sh pm m w2 = ((False, [], packageResult), w4)"
  proof (cases "alternativeCommands m")
    case None
    with assms(7) f have "w4 = w3" by simp
    with None assms(5,6) show ?thesis by (simp add: installStep_def)
  next
    case (Some a)
    with assms(7) t assms(5,6) show ?thesis by (simp add: installStep_def)
  qed
  then have "installWith sh env config pm m w2 =
      (\<lparr>success = False, message = ''Failed to install '' @ displayName config,
        details = Some (js_or (error packageResult) (stderr packageResult)),
        needsRestart = None\<rparr>, w4)"
    by (simp add: installWith_def)
  then show "installTool sh env x opts w =
                (Inr \<lparr>success = False, message = ''Failed to install '' @ displayName config,
                      details = Some (js_or (error packageResult) (stderr packageResult)),
                      needsRestart = None\<rparr>, w4)"
    using installTool_reaches_installWith [OF assms(1-4), of opts] by simp
qed

theorem installTool_alternatives_witness:
  "fst (installTool debian linux_bash ''rust'' None bare_debian) =
     Inr \<lparr>success = True, message = ''Rust installed successfully'',
          details = Some ''Rust is installed now.'', needsRestart = Some True\<rparr>
   \<and> fst (installTool debian linux_bash ''flutter'' None bare_debian) =
     Inr \<lparr>success = False, message = ''Failed to install Flutter'',
          details = Some ''Command failed: sudo apt-get install -y git curl unzip'',
          needsRestart = None\<rparr>"
proof -
  let ?rustup = "''curl --proto '' @ DQ @ ''=https'' @ DQ
                 @ '' --tlsv1.2 -sSf https://sh.rustup.rs | sh -s -- -y''"
  let ?m = "\<lparr>packageManager = APT, packageName = ''curl build-essential'',
          alternativeCommands = Some [?rustup], postInstallSteps = None\<rparr>"
  have e: "commandExists debian (commandToCheck rust_config) bare_debian =
        (False, bare_debian\<lparr>invoked := [''which rustc'']\<rparr>)"
    by (simp add: debian_which rust_config_def bare_debian_def)
  have d: "detectPackageManager debian linux_bash (bare_debian\<lparr>invoked := [''which rustc'']\<rparr>) =
        (Some apt_found, bare_debian\<lparr>invoked := [''which rustc'', ''which apt-get'']\<rparr>)"
    by (simp add: debian_detect bare_debian_def)
  have m: "map_of (installMethods rust_config) (pm_name apt_found) = Some ?m"
    by (simp add: rust_config_def apt_found_def)
  have p: "executeCommand debian (installCmd apt_found @ '' '' @ packageName ?m) (Some 600000)
             (bare_debian\<lparr>invoked := [''which rustc'', ''which apt-get'']\<rparr>) =
           (\<lparr>stdout = [], stderr = ''E: Unable to locate package'', cmd_success = False,
             error = Some ''Command failed: sudo apt-get install -y curl build-essential''\<rparr>,
            bare_debian\<lparr>invoked := [''which rustc'', ''which apt-get'',
               ''sudo apt-get install -y curl build-essential'']\<rparr>)"
    by (simp add: apt_found_def debian_rejects bare_debian_def)
  have np: "\<not> cmd_success \<lparr>stdout = [], stderr = ''E: Unable to locate package'',
             cmd_success = False,
             error = Some ''Command failed: sudo apt-get install -y curl build-essential''\<rparr>"
    by simp
  have al: "[?rustup] = (case alternativeCommands ?m of None \<Rightarrow> [] | Some a \<Rightarrow> a)"
    by simp
  have rust: "fst (installTool debian linux_bash ''rust'' None bare_debian) =
     Inr \<lparr>success = True, message = ''Rust installed successfully'',
          details = Some ''Rust is installed now.'', needsRestart = Some True\<rparr>"
    using installTool_alternatives [OF getToolConfig_rust e d m p np al,
        where pre = "[]" and c = ?rustup and post = "[]"
          and wk = "bare_debian\<lparr>invoked := [''which rustc'', ''which apt-get'',
               ''sudo apt-get install -y curl build-essential'']\<rparr>"
          and altResult = "\<lparr>stdout = ''Rust is installed now.'', stderr = [],
               cmd_success = True, error = None\<rparr>"
          and ?w4.0 = "bare_debian\<lparr>invoked := [''which rustc'', ''which apt-get'',
               ''sudo apt-get install -y curl build-essential'', ?rustup]\<rparr>"
          and restart = True
          and ?w5.0 = "bare_debian\<lparr>invoked := [''which rustc'', ''which apt-get'',
               ''sudo apt-get install -y curl build-essential'', ?rustup],
               files := [''/home/dev/.bashrc'' \<mapsto> ''source $HOME/.cargo/env'' @ NL]\<rparr>"
          and verified = False
          and ?w6.0 = "bare_debian\<lparr>invoked := [''which rustc'', ''which apt-get'',
               ''sudo apt-get install -y curl build-essential'', ?rustup, ''which rustc''],
               files := [''/home/dev/.bashrc'' \<mapsto> ''source $HOME/.cargo/env'' @ NL]\<rparr>"
          and opts = None]
    by (simp add: finish_defs debian_resolves debian_which rust_config_def bare_debian_def)
  let ?clone =
    "''git clone https://github.com/flutter/flutter.git -b stable $HOME/development/flutter''"
  let ?fm = "\<lparr>packageManager = APT, packageName = ''git curl unzip'',
          alternativeCommands = Some [?clone], postInstallSteps = None\<rparr>"
  have fe: "commandExists debian (commandToCheck flutter_config) bare_debian =
        (False, bare_debian\<lparr>invoked := [''which flutter'']\<rparr>)"
    by (simp add: debian_which flutter_config_def bare_debian_def)
  have fd: "detectPackageManager debian linux_bash (bare_debian\<lparr>invoked := [''which flutter'']\<rparr>) =
        (Some apt_found, bare_debian\<lparr>invoked := [''which flutter'', ''which apt-get'']\<rparr>)"
    by (simp add: debian_detect bare_debian_def)
  have fm: "map_of (installMethods flutter_config) (pm_name apt_found) = Some ?fm"
    by (simp add: flutter_config_def apt_found_def)
  have fp: "executeCommand debian (installCmd apt_found @ '' '' @ packageName ?fm) (Some 600000)
             (bare_debian\<lparr>invoked := [''which flutter'', ''which apt-get'']\<rparr>) =
           (\<lparr>stdout = [], stderr = ''E: Unable to locate package'', cmd_success = False,
             error = Some ''Command failed: sudo apt-get install -y git curl unzip''\<rparr>,
            bare_debian\<lparr>invoked := [''which flutter'', ''which apt-get'',
               ''sudo apt-get install -y git curl unzip'']\<rparr>)"
    by (simp add: apt_found_def debian_rejects bare_debian_def)
  have fnp: "\<not> cmd_success \<lparr>stdout = [], stderr = ''E: Unable to locate package'',
             cmd_success = False,
             error = Some ''Command failed: sudo apt-get install -y git curl unzip''\<rparr>"
    by simp
  have fal: "[?clone] = (case alternativeCommands ?fm of None \<Rightarrow> [] | Some a \<Rightarrow> a)"
    by simp
  have flutter: "fst (installTool debian linux_bash ''flutter'' None bare_debian) =
     Inr \<lparr>success = False, message = ''Failed to install Flutter'',
          details = Some ''Command failed: sudo apt-get install -y git curl unzip'',
          needsRestart = None\<rparr>"
    using installTool_alternatives [OF getToolConfig_flutter fe fd fm fp fnp fal,
        where ?w4.0 = "bare_debian\<lparr>invoked := [''which flutter'', ''which apt-get'',
               ''sudo apt-get install -y git curl unzip'', ?clone]\<rparr>"
          and opts = None]
    by (simp add: debian_rejects js_or_def flutter_config_def bare_debian_def)
  from rust flutter show ?thesis by simp
qed

text \<open>
  Claim C7. Let \<open>x\<close> be a tool of the catalogue that is not present, and let the install
  step for the method \<open>m\<close> of the detected package manager have succeeded. With \<open>restart\<close>
  the answer of the shell configuration step (true when it wrote the profile) and
  \<open>verified\<close> the answer of the re-probe of the verify command: if either is true the
  result has \<^const>\<open>success\<close> true; otherwise it has \<^const>\<open>success\<close> false and the message
  of a verification failure, which is never the message of a failed install command for
  the same tool.
\<close>

theorem installTool_verification:
  assumes "getToolConfig x = Own config"
    and "commandExists sh (commandToCheck config) w = (False, w1)"
    and "detectPackageManager sh env w1 = (Some pm, w2)"
    and "map_of (installMethods config) (pm_name pm) = Some m"
    and "installStep sh pm m w2 = ((True, installDetails, packageResult), w3)"
    and "shellStep env config (postInstall sh m w3) = (restart, w5)"
    and "commandExists sh (commandToCheck config) w5 = (verified, w6)"
  shows "installTool sh env x opts w =
           (Inr (if verified \<or> restart
                 then \<lparr>success = True,
                       message = displayName config @ '' installed successfully'',
                       details = Some installDetails,
                       needsRestart = Some restart\<rparr>
                 else \<lparr>success = False,
                       message = displayName config
                                 @ '' installation completed but verification failed'',
                       details = Some ''The tool may require a shell restart to be available'',
                       needsRestart = Some True\<rparr>), w6)
         \<and> displayName config @ '' installation completed but verification failed''
             \<noteq> ''Failed to install '' @ displayName config"
proof -
  have "installWith sh env config pm m w2 = finishInstall sh env config m installDetails w3"
    using assms(5) by (simp add: installWith_def)
  then have "installTool sh env x opts w =
      (Inr (fst (finishInstall sh env config m installDetails w3)),
       snd (finishInstall sh env config m installDetails w3))"
    using installTool_reaches_installWith [OF assms(1-4), of opts] by simp
  then show ?thesis
    using assms(6,7) soft_message_differs [of "displayName config"]
    by (simp add: finishInstall_def)
qed

theorem installTool_verification_witness:
  "fst (installTool debian linux_bash ''git'' None bare_debian) =
     Inr \<lparr>success = True, message = ''Git installed successfully'',
          details = Some ''Setting up git'', needsRestart = Some False\<rparr>
   \<and> fst (installTool debian linux_bash ''nodejs'' None bare_debian) =
     Inr \<lparr>success = False,
          message = ''Node.js installation completed but verification failed'',
          details = Some ''The tool may require a shell restart to be available'',
          needsRestart = Some True\<rparr>"
proof -
  let ?m = "\<lparr>packageManager = APT, packageName = ''git'',
             alternativeCommands = None, postInstallSteps = None\<rparr>"
  let ?w3 = "bare_debian\<lparr>sys := [''git'', ''apt-get''],
               invoked := [''which git'', ''which apt-get'', ''sudo apt-get install -y git'']\<rparr>"
  have e: "commandExists debian (commandToCheck git_config) bare_debian =
        (False, bare_debian\<lparr>invoked := [''which git'']\<rparr>)"
    by (simp add: debian_which git_config_def bare_debian_def)
  have d: "detectPackageManager debian linux_bash (bare_debian\<lparr>invoked := [''which git'']\<rparr>) =
        (Some apt_found, bare_debian\<lparr>invoked := [''which git'', ''which apt-get'']\<rparr>)"
    by (simp add: debian_detect bare_debian_def)
  have m: "map_of (installMethods git_config) (pm_name apt_found) = Some ?m"
    by (simp add: git_config_def apt_found_def)
  have s: "installStep debian apt_found ?m
             (bare_debian\<lparr>invoked := [''which git'', ''which apt-get'']\<rparr>) =
        ((True, ''Setting up git'',
          \<lparr>stdout = ''Setting up git'', stderr = [], cmd_success = True, error = None\<rparr>), ?w3)"
    by (simp add: installStep_def apt_found_def debian_resolves bare_debian_def)
  have c: "shellStep linux_bash git_config (postInstall debian ?m ?w3) = (False, ?w3)"
    by (simp add: shellStep_def postInstall_def truthy_def git_config_def)
  have v: "commandExists debian (commandToCheck git_config) ?w3 =
        (True, ?w3\<lparr>invoked := [''which git'', ''which apt-get'', ''sudo apt-get install -y git'',
                               ''which git'']\<rparr>)"
    by (simp add: debian_which git_config_def bare_debian_def)
  have git: "fst (installTool debian linux_bash ''git'' None bare_debian) =
     Inr \<lparr>success = True, message = ''Git installed successfully'',
          details = Some ''Setting up git'', needsRestart = Some False\<rparr>"
    using installTool_verification [OF getToolConfig_git e d m s c v, of None]
    by (simp add: git_config_def)
  let ?n = "\<lparr>packageManager = APT, packageName = ''nodejs npm'',
          alternativeCommands =
            Some [''curl -fsSL https://deb.nodesource.com/setup_lts.x | sudo -E bash -'',
                  ''sudo apt-get install -y nodejs''],
          postInstallSteps = None\<rparr>"
  let ?u3 = "bare_debian\<lparr>invoked := [''which node'', ''which apt-get'',
         ''sudo apt-get install -y nodejs npm'',
         ''curl -fsSL https://deb.nodesource.com/setup_lts.x | sudo -E bash -'']\<rparr>"
  have ne: "commandExists debian (commandToCheck nodejs_config) bare_debian =
        (False, bare_debian\<lparr>invoked := [''which node'']\<rparr>)"
    by (simp add: debian_which nodejs_config_def bare_debian_def)
  have nd: "detectPackageManager debian linux_bash (bare_debian\<lparr>invoked := [''which node'']\<rparr>) =
        (Some apt_found, bare_debian\<lparr>invoked := [''which node'', ''which apt-get'']\<rparr>)"
    by (simp add: debian_detect bare_debian_def)
  have nm: "map_of (installMethods nodejs_config) (pm_name apt_found) = Some ?n"
    by (simp add: nodejs_config_def apt_found_def)
  have ns: "installStep debian apt_found ?n
              (bare_debian\<lparr>invoked := [''which node'', ''which apt-get'']\<rparr>) =
        ((True, ''Repository configured'',
          \<lparr>stdout = [], stderr = ''E: Unable to locate package'', cmd_success = False,
            error = Some ''Command failed: sudo apt-get install -y nodejs npm''\<rparr>), ?u3)"
    by (simp add: installStep_def apt_found_def debian_resolves debian_rejects bare_debian_def)
  have nc: "shellStep linux_bash nodejs_config (postInstall debian ?n ?u3) = (False, ?u3)"
    by (simp add: shellStep_def postInstall_def truthy_def nodejs_config_def)
  have nv: "commandExists debian (commandToCheck nodejs_config) ?u3 =
        (False, ?u3\<lparr>invoked := [''which node'', ''which apt-get'',
         ''sudo apt-get install -y nodejs npm'',
         ''curl -fsSL https://deb.nodesource.com/setup_lts.x | sudo -E bash -'', ''which node'']\<rparr>)"
    by (simp add: debian_which nodejs_config_def bare_debian_def)
  have node: "fst (installTool debian linux_bash ''nodejs'' None bare_debian) =
     Inr \<lparr>success = False,
          message = ''Node.js installation completed but verification failed'',
          details = Some ''The tool may require a shell restart to be available'',
          needsRestart = Some True\<rparr>"
    using installTool_verification [OF getToolConfig_nodejs ne nd nm ns nc nv, of None]
    by (simp add: nodejs_config_def)
  from git node show ?thesis by simp
qed

subsection \<open>Names that are not in the catalogue\<close>

text \<open>
  A name that is neither a key of the catalogue nor the name of a member of
  \<^verbatim>\<open>Object.prototype\<close> is answered without touching the machine.
\<close>

lemma unknown_tool_untouched:
  assumes "toolName \<notin> set getAllToolNames" and "toolName \<notin> set object_prototype_keys"
  shows "installTool sh env toolName opts w =
           (Inr \<lparr>success = False, message = ''Unknown tool: '' @ toolName,
                 details = None, needsRestart = None\<rparr>, w)"
    and "checkToolInstalled sh toolName w =
           (\<lparr>ts_name = Some toolName, ts_displayName = Some toolName,
             installed = False, version = None\<rparr>, w)"
  using getToolConfig_Absent [OF assms]
  by (simp_all add: installTool_def checkToolInstalled_def)

text \<open>
  Claim C5. The name \<^verbatim>\<open>constructor\<close> is not in the catalogue, but the catalogue object
  inherits a member of that name, which \<^const>\<open>getToolConfig\<close> returns. On the bare Debian
  machine \<^const>\<open>installTool\<close> then hands two commands to the shell and is rejected with a
  TypeError instead of returning a failure result, and \<^const>\<open>checkToolInstalled\<close> probes
  for a command called \<^verbatim>\<open>undefined\<close> and returns a status named \<^verbatim>\<open>Object\<close> with no
  display name.
\<close>

theorem unknown_name_constructor:
  "''constructor'' \<notin> set getAllToolNames
   \<and> installTool debian linux_bash ''constructor'' None bare_debian =
       (Inl TypeError, bare_debian\<lparr>invoked := [''which undefined'', ''which apt-get'']\<rparr>)
   \<and> checkToolInstalled debian ''constructor'' bare_debian =
       (\<lparr>ts_name = Some ''Object'', ts_displayName = None, installed = False, version = None\<rparr>,
        bare_debian\<lparr>invoked := [''which undefined'']\<rparr>)"
proof -
  have g: "getToolConfig ''constructor'' = Inherited ''constructor''"
    by (simp add: getToolConfig_def TOOL_CONFIGS_def object_prototype_keys_def)
  show ?thesis
    by (simp add: getAllToolNames_eq installTool_def checkToolInstalled_def g js_prop_def
        template_def toolStatus_def member_name_def inherited_name_def truthy_def
        debian_which debian_detect bare_debian_def)
qed


section \<open>installMultipleTools\<close>

lemma installTool_returns:
  assumes "toolName \<notin> set object_prototype_keys"
  shows "\<exists>r. fst (installTool sh env toolName opts w) = Inr r"
proof -
  from assms have "\<forall>k. getToolConfig toolName \<noteq> Inherited k"
    by (auto simp: getToolConfig_def split: option.splits)
  then show ?thesis
    by (cases "getToolConfig toolName")
      (auto simp: installTool_def Let_def split: prod.splits option.splits)
qed

lemma installEach_keys:
  assumes "\<forall>n \<in> set toolNames. n \<notin> set object_prototype_keys"
  shows "\<exists>results. fst (installEach sh env toolNames acc w) = Inr results
           \<and> dom results = dom acc \<union> set toolNames"
  using assms
proof (induction toolNames arbitrary: acc w)
  case Nil
  show ?case by simp
next
  case (Cons n toolNames)
  from Cons.prems have n: "n \<notin> set object_prototype_keys" by simp
  then obtain r where "fst (installTool sh env n None w) = Inr r"
    using installTool_returns by blast
  then obtain w' where t: "installTool sh env n None w = (Inr r, w')"
    by (cases "installTool sh env n None w") simp
  from n have np: "n \<noteq> ''__proto__''"
    by (auto simp: object_prototype_keys_def)
  from Cons.prems have rest: "\<forall>n \<in> set toolNames. n \<notin> set object_prototype_keys" by simp
  from Cons.IH [OF rest, of "acc(n \<mapsto> r)" w']
  obtain results where "fst (installEach sh env toolNames (acc(n \<mapsto> r)) w') = Inr results"
    and "dom results = dom (acc(n \<mapsto> r)) \<union> set toolNames" by blast
  with t np show ?case by auto
qed

text \<open>
  Where no input name is the name of a member of \<^verbatim>\<open>Object.prototype\<close>, every call of
  \<^const>\<open>installTool\<close> returns, the loop runs to its end, and the mapping has exactly the
  input names as keys.
\<close>

lemma installMultipleTools_keys:
  assumes "\<forall>n \<in> set toolNames. n \<notin> set object_prototype_keys"
  shows "\<exists>results. fst (installMultipleTools sh env toolNames w) = Inr results
           \<and> dom results = set toolNames"
  using installEach_keys [OF assms, of sh env Map.empty w]
  by (simp add: installMultipleTools_def)

text \<open>
  Under the same condition the mapping holds, for every input name, the result of the
  last call made for that name: \<^term>\<open>map_of (rev xs)\<close> gives each key the value of its last
  pair in \<open>xs\<close>.
\<close>

lemma installEach_runs:
  assumes "\<forall>n \<in> set toolNames. n \<notin> set object_prototype_keys"
  shows "fst (installEach sh env toolNames acc w)
          = Inr (acc ++ map_of (rev (installRuns sh env toolNames w)))
        \<and> map fst (installRuns sh env toolNames w) = toolNames"
  using assms
proof (induction toolNames arbitrary: acc w)
  case Nil
  show ?case by simp
next
  case (Cons n toolNames)
  from Cons.prems have n: "n \<notin> set object_prototype_keys" by simp
  then obtain r where "fst (installTool sh env n None w) = Inr r"
    using installTool_returns by blast
  then obtain w' where t: "installTool sh env n None w = (Inr r, w')"
    by (cases "installTool sh env n None w") simp
  from n have np: "n \<noteq> ''__proto__''"
    by (auto simp: object_prototype_keys_def)
  from Cons.prems have rest: "\<forall>n \<in> set toolNames. n \<notin> set object_prototype_keys" by simp
  have ih: "fst (installEach sh env toolNames (acc(n \<mapsto> r)) w')
          = Inr (acc(n \<mapsto> r) ++ map_of (rev (installRuns sh env toolNames w')))
        \<and> map fst (installRuns sh env toolNames w') = toolNames"
    by (rule Cons.IH [OF rest])
  have eq: "acc(n \<mapsto> r) ++ map_of (rev (installRuns sh env toolNames w'))
        = acc ++ map_of (rev ((n, r) # installRuns sh env toolNames w'))"
    by (rule ext) (simp add: map_add_def split: option.splits)
  have step: "installEach sh env (n # toolNames) acc w
                = installEach sh env toolNames (acc(n \<mapsto> r)) w'"
    using t np by simp
  have runs: "installRuns sh env (n # toolNames) w = (n, r) # installRuns sh env toolNames w'"
    using t by simp
  have "fst (installEach sh env (n # toolNames) acc w)
          = Inr (acc ++ map_of (rev (installRuns sh env (n # toolNames) w)))"
    unfolding step runs using ih eq by (simp only:)
  moreover have "map fst (installRuns sh env (n # toolNames) w) = n # toolNames"
    unfolding runs using ih by simp
  ultimately show ?case by blast
qed

lemma installMultipleTools_runs:
  assumes "\<forall>n \<in> set toolNames. n \<notin> set object_prototype_keys"
  shows "fst (installMultipleTools sh env toolNames w)
          = Inr (map_of (rev (installRuns sh env toolNames w)))
        \<and> map fst (installRuns sh env toolNames w) = toolNames"
  using installEach_runs [OF assms, of sh env Map.empty w]
  by (simp add: installMultipleTools_def)

text \<open>
  Claim C6. On the bare Debian machine, \<^const>\<open>installMultipleTools\<close> for the names
  \<^verbatim>\<open>toString\<close> and \<^verbatim>\<open>git\<close> is rejected with the TypeError of the first call: it returns no
  mapping, and git is never attempted (the only commands run are the two of the first
  call).
\<close>

theorem installMultipleTools_rejected:
  "fst (installMultipleTools debian linux_bash [''toString'', ''git''] bare_debian) = Inl TypeError
   \<and> invoked (snd (installMultipleTools debian linux_bash [''toString'', ''git''] bare_debian))
       = [''which undefined'', ''which apt-get'']"
proof -
  have g: "getToolConfig ''toString'' = Inherited ''toString''"
    by (simp add: getToolConfig_def TOOL_CONFIGS_def object_prototype_keys_def)
  have "installTool debian linux_bash ''toString'' None bare_debian =
       (Inl TypeError, bare_debian\<lparr>invoked := [''which undefined'', ''which apt-get'']\<rparr>)"
    by (simp add: installTool_def g js_prop_def template_def debian_which debian_detect
        bare_debian_def)
  then show ?thesis
    by (simp add: installMultipleTools_def bare_debian_def)
qed


section \<open>installNvm and installNodeViaTarget\<close>

lemma addNvmConfig_allowed: "p \<notin> denied w \<Longrightarrow> addNvmConfig p w \<noteq> None"
  by (auto simp: addNvmConfig_def readFile_def appendFile_def writeFile_def split: option.splits)

text \<open>Both returns of \<^const>\<open>installNvm\<close> carry \<^const>\<open>success\<close> true.\<close>

lemma installNvm_success:
  assumes "installNvm sh env w = (Inr r, w')"
  shows "success r"
proof -
  obtain b w1 where e: "commandExists sh ''nvm'' w = (b, w1)"
    by (cases "commandExists sh ''nvm'' w")
  obtain res w2 where x: "executeCommand sh nvm_installCommand (Some 120000) w1 = (res, w2)"
    by (cases "executeCommand sh nvm_installCommand (Some 120000) w1")
  show ?thesis
    using assms e x
    by (cases b; cases "addNvmConfig (getShellConfigPath env) w2") (auto simp: installNvm_def)
qed

lemma debian_installNvm:
  assumes "''nvm'' \<notin> set (sys w)" and "getShellConfigPath linux_bash \<notin> denied w"
    and "files w (getShellConfigPath linux_bash) = None"
  shows "installNvm debian linux_bash w =
     (Inr \<lparr>success = True, message = ''nvm installed successfully'',
           details = Some [], needsRestart = Some True\<rparr>,
      w\<lparr>invoked := invoked w @ [''which nvm'', nvm_installCommand],
        files := (files w)(getShellConfigPath linux_bash \<mapsto> nvmConfig)\<rparr>)"
proof -
  have x: "executeCommand debian nvm_installCommand (Some 120000)
             (w\<lparr>invoked := invoked w @ [''which nvm'']\<rparr>) =
           (\<lparr>stdout = [], stderr = ''E: Unable to locate package'', cmd_success = False,
             error = Some (''Command failed: '' @ nvm_installCommand)\<rparr>,
            w\<lparr>invoked := invoked w @ [''which nvm'', nvm_installCommand]\<rparr>)"
    by (simp add: debian_rejects nvm_installCommand_def)
  show ?thesis
    using assms x
    by (simp add: installNvm_def debian_which addNvmConfig_def readFile_def writeFile_def)
qed

text \<open>
  Claim C10. Let nvm be absent when \<^const>\<open>installNvm\<close> is called, and let \<open>result\<close> be
  whatever the bootstrap command produces (success, failure or time-out). If the shell
  profile can be written, \<^const>\<open>installNvm\<close> returns a result with \<^const>\<open>success\<close> true and
  \<^const>\<open>needsRestart\<close> true; if it cannot, the call is rejected and returns no result.
  Hence whenever \<^const>\<open>installNvm\<close> returns a result to \<^const>\<open>installNodeViaTarget\<close>, that
  result has \<^const>\<open>success\<close> true, the package-manager fallback is not taken, and the
  installation goes on through nvm.
\<close>

theorem installNvm_never_fails:
  assumes "commandExists sh ''nvm'' w = (False, w1)"
    and "executeCommand sh nvm_installCommand (Some 120000) w1 = (result, w2)"
  shows "(getShellConfigPath env \<notin> denied w2
            \<longrightarrow> (\<exists>w3. installNvm sh env w =
                        (Inr \<lparr>success = True, message = ''nvm installed successfully'',
                              details = Some (stdout result), needsRestart = Some True\<rparr>, w3)))
       \<and> (getShellConfigPath env \<in> denied w2 \<longrightarrow> installNvm sh env w = (Inl FsError, w2))
       \<and> (\<forall>u u1 u2 nvmResult u3.
             commandExists sh ''node'' u = (False, u1) \<and> commandExists sh ''nvm'' u1 = (False, u2)
             \<and> installNvm sh env u2 = (Inr nvmResult, u3)
             \<longrightarrow> success nvmResult
                 \<and> installNodeViaTarget sh env ver u =
                     (Inr (fst (installNodeWithNvm sh env
                                  (case ver of None \<Rightarrow> ''lts'' | Some v \<Rightarrow> v) u3)),
                      snd (installNodeWithNvm sh env
                             (case ver of None \<Rightarrow> ''lts'' | Some v \<Rightarrow> v) u3)))"
proof (intro conjI impI allI)
  assume "getShellConfigPath env \<notin> denied w2"
  then obtain w3 where "addNvmConfig (getShellConfigPath env) w2 = Some w3"
    using addNvmConfig_allowed by blast
  then have "installNvm sh env w =
      (Inr \<lparr>success = True, message = ''nvm installed successfully'',
            details = Some (stdout result), needsRestart = Some True\<rparr>, w3)"
    using assms by (simp add: installNvm_def)
  then show "\<exists>w3. installNvm sh env w =
      (Inr \<lparr>success = True, message = ''nvm installed successfully'',
            details = Some (stdout result), needsRestart = Some True\<rparr>, w3)" by blast
next
  assume "getShellConfigPath env \<in> denied w2"
  then have "addNvmConfig (getShellConfigPath env) w2 = None"
    by (simp add: addNvmConfig_def readFile_def writeFile_def)
  then show "installNvm sh env w = (Inl FsError, w2)"
    using assms by (simp add: installNvm_def)
next
  fix u u1 u2 nvmResult u3
  assume h: "commandExists sh ''node'' u = (False, u1) \<and> commandExists sh ''nvm'' u1 = (False, u2)
             \<and> installNvm sh env u2 = (Inr nvmResult, u3)"
  then show "success nvmResult"
    using installNvm_success by blast
next
  fix u u1 u2 nvmResult u3
  assume h: "commandExists sh ''node'' u = (False, u1) \<and> commandExists sh ''nvm'' u1 = (False, u2)
             \<and> installNvm sh env u2 = (Inr nvmResult, u3)"
  then have "success nvmResult"
    using installNvm_success by blast
  with h show "installNodeViaTarget sh env ver u =
                     (Inr (fst (installNodeWithNvm sh env
                                  (case ver of None \<Rightarrow> ''lts'' | Some v \<Rightarrow> v) u3)),
                      snd (installNodeWithNvm sh env
                             (case ver of None \<Rightarrow> ''lts'' | Some v \<Rightarrow> v) u3))"
    by (simp add: installNodeViaTarget_def split: prod.splits)
qed

theorem installNvm_never_fails_witness:
  \<open>fst (installNvm debian linux_bash bare_debian) =
     Inr \<lparr>success = True, message = ''nvm installed successfully'',
          details = Some [], needsRestart = Some True\<rparr>
   \<and> fst (installNodeViaTarget debian linux_bash None bare_debian) =
     Inr \<lparr>success = False, message = ''Failed to install Node.js via nvm'',
          details = Some ''Command failed: bash -c "source /home/dev/.nvm/nvm.sh && nvm install lts && nvm use lts"'',
          needsRestart = None\<rparr>\<close>
proof -
  have e: "commandExists debian ''nvm'' bare_debian
             = (False, bare_debian\<lparr>invoked := [''which nvm'']\<rparr>)"
    by (simp add: debian_which bare_debian_def)
  have x: "executeCommand debian nvm_installCommand (Some 120000)
             (bare_debian\<lparr>invoked := [''which nvm'']\<rparr>) =
           (\<lparr>stdout = [], stderr = ''E: Unable to locate package'', cmd_success = False,
             error = Some (''Command failed: '' @ nvm_installCommand)\<rparr>,
            bare_debian\<lparr>invoked := [''which nvm'', nvm_installCommand]\<rparr>)"
    by (simp add: debian_rejects nvm_installCommand_def bare_debian_def)
  have d: "getShellConfigPath linux_bash
             \<notin> denied (bare_debian\<lparr>invoked := [''which nvm'', nvm_installCommand]\<rparr>)"
    by (simp add: bare_debian_def)
  have n1: "commandExists debian ''node'' bare_debian =
              (False, bare_debian\<lparr>invoked := [''which node'']\<rparr>)"
    by (simp add: debian_which bare_debian_def)
  have n2: "commandExists debian ''nvm'' (bare_debian\<lparr>invoked := [''which node'']\<rparr>) =
              (False, bare_debian\<lparr>invoked := [''which node'', ''which nvm'']\<rparr>)"
    by (simp add: debian_which bare_debian_def)
  have n3: "installNvm debian linux_bash
              (bare_debian\<lparr>invoked := [''which node'', ''which nvm'']\<rparr>) =
     (Inr \<lparr>success = True, message = ''nvm installed successfully'',
           details = Some [], needsRestart = Some True\<rparr>,
      bare_debian\<lparr>invoked := [''which node'', ''which nvm'', ''which nvm'', nvm_installCommand],
        files := [getShellConfigPath linux_bash \<mapsto> nvmConfig]\<rparr>)"
    by (simp add: debian_installNvm bare_debian_def)
  have first: "fst (installNvm debian linux_bash bare_debian) =
     Inr \<lparr>success = True, message = ''nvm installed successfully'',
          details = Some [], needsRestart = Some True\<rparr>"
    using installNvm_never_fails [OF e x, of linux_bash None] d by auto
  have "installNodeViaTarget debian linux_bash None bare_debian =
      (Inr (fst (installNodeWithNvm debian linux_bash ''lts''
         (bare_debian\<lparr>invoked := [''which node'', ''which nvm'', ''which nvm'', nvm_installCommand],
            files := [getShellConfigPath linux_bash \<mapsto> nvmConfig]\<rparr>))),
       snd (installNodeWithNvm debian linux_bash ''lts''
         (bare_debian\<lparr>invoked := [''which node'', ''which nvm'', ''which nvm'', nvm_installCommand],
            files := [getShellConfigPath linux_bash \<mapsto> nvmConfig]\<rparr>)))"
    using installNvm_never_fails [OF e x, of linux_bash None] n1 n2 n3 by simp
  then have second: "fst (installNodeViaTarget debian linux_bash None bare_debian) =
      Inr (fst (installNodeWithNvm debian linux_bash ''lts''
         (bare_debian\<lparr>invoked := [''which node'', ''which nvm'', ''which nvm'', nvm_installCommand],
            files := [getShellConfigPath linux_bash \<mapsto> nvmConfig]\<rparr>)))"
    by simp
  show ?thesis
    unfolding second first
    by (simp add: installNodeWithNvm_def getHomeDirectory_def js_or_def linux_bash_def
        debian_rejects debian_which bare_debian_def)
qed


section \<open>checkAllTools\<close>

text \<open>
  Run on its own, a call of \<^const>\<open>checkToolInstalled\<close> is its start followed by two
  resumptions (the second changes nothing when the first has settled the call).
\<close>

lemma checkToolInstalled_resume:
  "(case startCheck sh toolName w of (t0, w0) \<Rightarrow>
      case resumeCheck sh t0 w0 of (t1, w1) \<Rightarrow> resumeCheck sh t1 w1)
   = (Settled (fst (checkToolInstalled sh toolName w)), snd (checkToolInstalled sh toolName w))"
proof (cases "getToolConfig toolName = Absent")
  case True
  then show ?thesis by (simp add: startCheck_def checkToolInstalled_def)
next
  case False
  obtain b w1 where
    e: "commandExists sh (template (js_prop commandToCheck (getToolConfig toolName))) w = (b, w1)"
    by (cases "commandExists sh (template (js_prop commandToCheck (getToolConfig toolName))) w")
  show ?thesis
    using False e
    by (cases b) (simp_all add: startCheck_def checkToolInstalled_def split: prod.splits)
qed

lemma resumeCheck_subject: "subject (fst (resumeCheck sh t w)) = subject t"
  by (cases t) (simp_all add: toolStatus_def split: prod.splits)

lemma resumeCheck_found: "found (fst (resumeCheck sh t w)) = found t"
  by (cases t) (simp_all add: toolStatus_def split: prod.splits)

lemma resumeCheck_awaits: "awaits (fst (resumeCheck sh t w)) \<le> awaits t - 1"
  by (cases t) (simp_all split: prod.splits)

lemma resumeCheck_invoked: "prefix (invoked w) (invoked (snd (resumeCheck sh t w)))"
proof (cases t)
  case (AwaitExists toolConfig inst)
  show ?thesis
  proof (cases inst)
    case True
    have "snd (resumeCheck sh t w)
        = snd (getCommandVersion sh (template (js_prop commandToCheck toolConfig))
                (case js_prop versionFlag toolConfig of None \<Rightarrow> ''--version'' | Some f \<Rightarrow> f) w)"
      using AwaitExists True by (simp split: prod.splits)
    then show ?thesis by (simp add: getCommandVersion_invoked)
  next
    case False
    with AwaitExists show ?thesis by simp
  qed
qed simp_all

lemma runSchedule_length: "length (fst (runSchedule sh schedule tasks w)) = length tasks"
  by (induction schedule arbitrary: tasks w) (simp_all split: prod.splits)

lemma runSchedule_map:
  assumes f: "\<And>t u. f (fst (resumeCheck sh t u)) = f t"
  shows "map f (fst (runSchedule sh schedule tasks w)) = map f tasks"
proof (induction schedule arbitrary: tasks w)
  case Nil
  show ?case by simp
next
  case (Cons i schedule)
  show ?case
  proof (cases "i < length tasks")
    case False
    then show ?thesis using Cons.IH by simp
  next
    case True
    obtain t w1 where r: "resumeCheck sh (tasks ! i) w = (t, w1)"
      by (cases "resumeCheck sh (tasks ! i) w")
    have "f t = f (tasks ! i)"
      using f [of "tasks ! i" w] r by simp
    then have "map f (tasks[i := t]) = map f tasks"
      using True by (simp add: map_update list_update_same_conv)
    then show ?thesis
      using True r Cons.IH [of "tasks[i := t]" w1] by simp
  qed
qed

lemma runSchedule_invoked:
  "prefix (invoked w) (invoked (snd (runSchedule sh schedule tasks w)))"
proof (induction schedule arbitrary: tasks w)
  case Nil
  show ?case by simp
next
  case (Cons i schedule)
  show ?case
  proof (cases "i < length tasks")
    case False
    then show ?thesis using Cons.IH by simp
  next
    case True
    obtain t w1 where r: "resumeCheck sh (tasks ! i) w = (t, w1)"
      by (cases "resumeCheck sh (tasks ! i) w")
    have "prefix (invoked w) (invoked w1)"
      using resumeCheck_invoked [of w sh "tasks ! i"] r by simp
    moreover have "prefix (invoked w1) (invoked (snd (runSchedule sh schedule (tasks[i := t]) w1)))"
      by (rule Cons.IH)
    ultimately show ?thesis
      using True r by (simp only: runSchedule.simps if_True Let_def split prefix_order.order_trans)
  qed
qed

lemma runSchedule_awaits:
  "k < length tasks \<Longrightarrow>
   awaits (fst (runSchedule sh schedule tasks w) ! k) \<le> awaits (tasks ! k) - count_list schedule k"
proof (induction schedule arbitrary: tasks w)
  case Nil
  then show ?case by simp
next
  case (Cons i schedule)
  show ?case
  proof (cases "i < length tasks")
    case False
    with Cons.prems have "i \<noteq> k" by auto
    with False Cons.IH [OF Cons.prems, of w] show ?thesis by simp
  next
    case True
    obtain t w1 where r: "resumeCheck sh (tasks ! i) w = (t, w1)"
      by (cases "resumeCheck sh (tasks ! i) w")
    have t: "awaits t \<le> awaits (tasks ! i) - 1"
      using resumeCheck_awaits [of sh "tasks ! i" w] r by simp
    have k: "k < length (tasks[i := t])" using Cons.prems by simp
    have "awaits (fst (runSchedule sh schedule (tasks[i := t]) w1) ! k)
            \<le> awaits (tasks[i := t] ! k) - count_list schedule k"
      by (rule Cons.IH [OF k])
    moreover have "awaits (tasks[i := t] ! k) - count_list schedule k
            \<le> awaits (tasks ! k) - count_list (i # schedule) k"
      using t Cons.prems by (cases "i = k") auto
    ultimately show ?thesis
      using True r by simp
  qed
qed

lemma settled_awaits: "(settled t \<noteq> None) = (awaits t = 0)"
  by (cases t) simp_all

lemma settled_subject: "settled t = Some s \<Longrightarrow> subject t = (ts_name s, ts_displayName s)"
  by (cases t) simp_all

lemma settled_found: "settled t = Some s \<Longrightarrow> found t = installed s"
  by (cases t) simp_all

lemma map_filter_settled:
  assumes "list_all (\<lambda>t. settled t \<noteq> None) tasks"
    and "\<And>t s. settled t = Some s \<Longrightarrow> f t = g s"
  shows "map g (List.map_filter settled tasks) = map f tasks"
  using assms by (induction tasks) (auto simp: List.map_filter_simps)

subsection \<open>The calls as they are started\<close>

lemma startChecks_Cons:
  "startChecks sh (n # ns) w =
     (fst (startCheck sh n w) # fst (startChecks sh ns (snd (startCheck sh n w))),
      snd (startChecks sh ns (snd (startCheck sh n w))))"
  by (simp add: case_prod_beta)

lemma probeEach_Cons:
  "probeEach sh (c # cs) w =
     (fst (commandExists sh c w) # fst (probeEach sh cs (snd (commandExists sh c w))),
      snd (probeEach sh cs (snd (commandExists sh c w))))"
  by (simp add: case_prod_beta)

lemma startCheck_subject:
  "subject (fst (startCheck sh toolName w)) =
     (case getToolConfig toolName of
        Own c \<Rightarrow> (Some (name c), Some (displayName c))
      | Inherited k \<Rightarrow> (inherited_name k, None)
      | Absent \<Rightarrow> (Some toolName, Some toolName))"
  by (simp add: startCheck_def member_name_def js_prop_def split: js_member.splits prod.splits)

lemma startCheck_awaits: "awaits (fst (startCheck sh toolName w)) \<le> 2"
  by (simp add: startCheck_def Let_def split: prod.splits)

lemma startChecks_length: "length (fst (startChecks sh toolNames w)) = length toolNames"
  by (induction toolNames arbitrary: w) (simp_all add: startChecks_Cons del: startChecks.simps(2))

lemma startChecks_subject:
  "map subject (fst (startChecks sh toolNames w)) =
     map (\<lambda>n. case getToolConfig n of
                 Own c \<Rightarrow> (Some (name c), Some (displayName c))
               | Inherited k \<Rightarrow> (inherited_name k, None)
               | Absent \<Rightarrow> (Some n, Some n)) toolNames"
  by (induction toolNames arbitrary: w)
     (simp_all add: startChecks_Cons startCheck_subject del: startChecks.simps(2))

lemma startChecks_awaits:
  "k < length toolNames \<Longrightarrow> awaits (fst (startChecks sh toolNames w) ! k) \<le> 2"
proof (induction toolNames arbitrary: w k)
  case Nil
  then show ?case by simp
next
  case (Cons n ns)
  show ?case
  proof (cases k)
    case 0
    then show ?thesis by (simp add: startChecks_Cons startCheck_awaits del: startChecks.simps(2))
  next
    case (Suc j)
    with Cons.prems have "j < length ns" by simp
    from Cons.IH [OF this] Suc show ?thesis
      by (simp add: startChecks_Cons del: startChecks.simps(2))
  qed
qed

text \<open>
  Starting the calls for names that all have a descriptor is looking for their commands
  one after the other.
\<close>

lemma startCheck_probe:
  "getToolConfig n \<noteq> Absent \<Longrightarrow>
   found (fst (startCheck sh n w))
     = fst (commandExists sh (template (js_prop commandToCheck (getToolConfig n))) w)
   \<and> snd (startCheck sh n w)
       = snd (commandExists sh (template (js_prop commandToCheck (getToolConfig n))) w)"
  by (simp add: startCheck_def case_prod_beta Let_def)

lemma startChecks_probeEach:
  assumes "\<forall>n \<in> set toolNames. getToolConfig n \<noteq> Absent"
  shows "map found (fst (startChecks sh toolNames w))
           = fst (probeEach sh (map (\<lambda>n. template (js_prop commandToCheck (getToolConfig n)))
                                   toolNames) w)
       \<and> snd (startChecks sh toolNames w)
           = snd (probeEach sh (map (\<lambda>n. template (js_prop commandToCheck (getToolConfig n)))
                                   toolNames) w)"
  using assms
  by (induction toolNames arbitrary: w)
     (simp_all add: startChecks_Cons probeEach_Cons startCheck_probe
        del: startChecks.simps(2) probeEach.simps(2))

lemma probeEach_invoked:
  "invoked (snd (probeEach sh cs w)) = invoked w @ map (\<lambda>c. ''which '' @ c) cs"
  by (induction cs arbitrary: w)
     (simp_all add: probeEach_Cons commandExists_invoked del: probeEach.simps(2))


lemma checkMultipleTools_subjects:
  assumes "checkMultipleTools sh toolNames schedule w = Some (statuses, w')"
  shows "map (\<lambda>s. (ts_name s, ts_displayName s)) statuses
           = map subject (fst (startChecks sh toolNames w))"
proof -
  obtain started w0 where s: "startChecks sh toolNames w = (started, w0)"
    by (cases "startChecks sh toolNames w")
  obtain tasks w1 where r: "runSchedule sh schedule started w0 = (tasks, w1)"
    by (cases "runSchedule sh schedule started w0")
  from assms s r have a: "list_all (\<lambda>t. settled t \<noteq> None) tasks"
    and st: "statuses = List.map_filter settled tasks"
    by (auto simp: checkMultipleTools_def split: if_splits)
  have "map subject tasks = map subject started"
    using runSchedule_map [of subject sh schedule started w0, OF resumeCheck_subject] r by simp
  moreover have "map (\<lambda>s. (ts_name s, ts_displayName s)) (List.map_filter settled tasks)
      = map subject tasks"
    using a settled_subject by (rule map_filter_settled)
  ultimately show ?thesis using st s by simp
qed

lemma checkMultipleTools_found:
  assumes "checkMultipleTools sh toolNames schedule w = Some (statuses, w')"
  shows "map installed statuses = map found (fst (startChecks sh toolNames w))"
proof -
  obtain started w0 where s: "startChecks sh toolNames w = (started, w0)"
    by (cases "startChecks sh toolNames w")
  obtain tasks w1 where r: "runSchedule sh schedule started w0 = (tasks, w1)"
    by (cases "runSchedule sh schedule started w0")
  from assms s r have a: "list_all (\<lambda>t. settled t \<noteq> None) tasks"
    and st: "statuses = List.map_filter settled tasks"
    by (auto simp: checkMultipleTools_def split: if_splits)
  have "map found tasks = map found started"
    using runSchedule_map [of found sh schedule started w0, OF resumeCheck_found] r by simp
  moreover have "map installed (List.map_filter settled tasks) = map found tasks"
    using a settled_found by (rule map_filter_settled)
  ultimately show ?thesis using st s by simp
qed

lemma checkMultipleTools_invoked:
  assumes "checkMultipleTools sh toolNames schedule w = Some (statuses, w')"
  shows "prefix (invoked (snd (startChecks sh toolNames w))) (invoked w')"
proof -
  obtain started w0 where s: "startChecks sh toolNames w = (started, w0)"
    by (cases "startChecks sh toolNames w")
  obtain tasks w1 where r: "runSchedule sh schedule started w0 = (tasks, w1)"
    by (cases "runSchedule sh schedule started w0")
  from assms s r have "w' = w1"
    by (auto simp: checkMultipleTools_def split: if_splits)
  then show ?thesis
    using runSchedule_invoked [of w0 sh schedule started] s r by simp
qed

text \<open>A schedule in which every position comes up twice lets every call settle.\<close>

lemma checkMultipleTools_completes:
  assumes "\<forall>i < length toolNames. 2 \<le> count_list schedule i"
  shows "checkMultipleTools sh toolNames schedule w \<noteq> None"
proof -
  obtain started w0 where s: "startChecks sh toolNames w = (started, w0)"
    by (cases "startChecks sh toolNames w")
  obtain tasks w1 where r: "runSchedule sh schedule started w0 = (tasks, w1)"
    by (cases "runSchedule sh schedule started w0")
  have sl: "length started = length toolNames"
    using startChecks_length [of sh toolNames w] s by simp
  have len: "length tasks = length started"
    using runSchedule_length [of sh schedule started w0] r by simp
  have "\<forall>k < length tasks. settled (tasks ! k) \<noteq> None"
  proof (intro allI impI)
    fix k assume k: "k < length tasks"
    then have k': "k < length started" using len by simp
    then have "k < length toolNames" using sl by simp
    then have "awaits (started ! k) \<le> 2"
      using startChecks_awaits [of k toolNames sh w] s by simp
    moreover have "2 \<le> count_list schedule k" using assms k len sl by simp
    ultimately have "awaits (tasks ! k) = 0"
      using runSchedule_awaits [OF k', of sh schedule w0] r by simp
    then show "settled (tasks ! k) \<noteq> None" using settled_awaits [of "tasks ! k"] by blast
  qed
  then have "list_all (\<lambda>t. settled t \<noteq> None) tasks"
    by (simp add: list_all_length)
  with s r show ?thesis by (simp add: checkMultipleTools_def)
qed

subsection \<open>A shell whose answers do not depend on the machine\<close>

lemma steady_executeCommand:
  assumes "\<forall>cmd ms u v. fst (sh cmd ms u) = fst (sh cmd ms v)"
  shows "fst (executeCommand sh c t u) = fst (executeCommand sh c t v)"
proof -
  let ?ms = "case t of None \<Rightarrow> 60000 | Some t \<Rightarrow> if t = 0 then 60000 else t"
  from assms have "fst (sh c ?ms u) = fst (sh c ?ms v)" by blast
  then show ?thesis
    by (simp add: executeCommand_def Let_def case_prod_beta split: exec_outcome.splits)
qed

lemma steady_commandExists:
  assumes "\<forall>cmd ms u v. fst (sh cmd ms u) = fst (sh cmd ms v)"
  shows "fst (commandExists sh c u) = fst (commandExists sh c v)"
  using steady_executeCommand [OF assms, of "''which '' @ c" None u v]
  by (simp add: commandExists_def case_prod_beta)

lemma steady_getCommandVersion:
  assumes "\<forall>cmd ms u v. fst (sh cmd ms u) = fst (sh cmd ms v)"
  shows "fst (getCommandVersion sh c f u) = fst (getCommandVersion sh c f v)"
  using steady_executeCommand [OF assms, of "c @ '' '' @ f" None u v]
  by (simp add: getCommandVersion_def case_prod_beta)

lemma steady_startCheck:
  assumes "\<forall>cmd ms u v. fst (sh cmd ms u) = fst (sh cmd ms v)"
  shows "fst (startCheck sh n u) = fst (startCheck sh n v)"
  using steady_commandExists [OF assms, of _ u v]
  by (simp add: startCheck_def Let_def case_prod_beta)

lemma steady_resumeCheck:
  assumes "\<forall>cmd ms u v. fst (sh cmd ms u) = fst (sh cmd ms v)"
  shows "fst (resumeCheck sh t u) = fst (resumeCheck sh t v)"
  using steady_getCommandVersion [OF assms, of _ _ u v]
  by (cases t) (simp_all add: case_prod_beta)

lemma stages_last:
  assumes "\<forall>cmd ms u v. fst (sh cmd ms u) = fst (sh cmd ms v)"
  shows "stages sh n w ! 2 = Settled (fst (checkToolInstalled sh n w))"
proof (cases "getToolConfig n = Absent")
  case True
  then show ?thesis by (simp add: stages_def startCheck_def checkToolInstalled_def Let_def)
next
  case False
  let ?c = "template (js_prop commandToCheck (getToolConfig n))"
  let ?f = "case js_prop versionFlag (getToolConfig n) of None \<Rightarrow> ''--version'' | Some f \<Rightarrow> f"
  have v: "fst (getCommandVersion sh ?c ?f w)
         = fst (getCommandVersion sh ?c ?f (snd (commandExists sh ?c w)))"
    by (rule steady_getCommandVersion [OF assms])
  show ?thesis
    using False v
    by (cases "fst (commandExists sh ?c w)")
       (simp_all add: stages_def startCheck_def checkToolInstalled_def Let_def case_prod_beta)
qed

lemma stages_resume:
  assumes st: "\<forall>cmd ms u v. fst (sh cmd ms u) = fst (sh cmd ms v)"
    and t: "t \<in> set (stages sh n w)"
  shows "fst (resumeCheck sh t u) \<in> set (stages sh n w)"
proof -
  have e: "fst (resumeCheck sh t u) = fst (resumeCheck sh t w)"
    by (rule steady_resumeCheck [OF st])
  have l: "stages sh n w ! 2 = Settled (fst (checkToolInstalled sh n w))"
    by (rule stages_last [OF st])
  from t l show ?thesis
    unfolding e by (auto simp: stages_def Let_def)
qed

lemma stages_settled:
  assumes st: "\<forall>cmd ms u v. fst (sh cmd ms u) = fst (sh cmd ms v)"
    and t: "t \<in> set (stages sh n w)"
    and s: "settled t = Some s"
  shows "s = fst (checkToolInstalled sh n w)"
proof -
  have l: "stages sh n w ! 2 = Settled (fst (checkToolInstalled sh n w))"
    by (rule stages_last [OF st])
  from s have e: "t = Settled s" by (cases t) simp_all
  from t consider "fst (startCheck sh n w) = t"
    | "fst (resumeCheck sh (fst (startCheck sh n w)) w) = t"
    | "stages sh n w ! 2 = t"
    by (auto simp: stages_def Let_def)
  then have "stages sh n w ! 2 = t"
  proof cases
    case 1
    then show ?thesis by (simp add: stages_def Let_def e)
  next
    case 2
    then show ?thesis by (simp add: stages_def Let_def e)
  next
    case 3
    then show ?thesis .
  qed
  with l e show ?thesis by simp
qed

lemma startChecks_stages:
  assumes st: "\<forall>cmd ms u v. fst (sh cmd ms u) = fst (sh cmd ms v)"
  shows "list_all2 (\<lambda>n t. t \<in> set (stages sh n w)) toolNames (fst (startChecks sh toolNames u))"
proof (induction toolNames arbitrary: u)
  case Nil
  show ?case by simp
next
  case (Cons n ns)
  have "fst (startCheck sh n u) = fst (startCheck sh n w)"
    by (rule steady_startCheck [OF st])
  then have "fst (startCheck sh n u) \<in> set (stages sh n w)"
    by (simp add: stages_def Let_def)
  with Cons.IH show ?case
    by (simp add: startChecks_Cons del: startChecks.simps(2))
qed

lemma runSchedule_stages:
  assumes st: "\<forall>cmd ms u v. fst (sh cmd ms u) = fst (sh cmd ms v)"
  shows "list_all2 (\<lambda>n t. t \<in> set (stages sh n w)) toolNames tasks \<Longrightarrow>
         list_all2 (\<lambda>n t. t \<in> set (stages sh n w)) toolNames
           (fst (runSchedule sh schedule tasks u))"
proof (induction schedule arbitrary: tasks u)
  case Nil
  then show ?case by simp
next
  case (Cons i schedule)
  show ?case
  proof (cases "i < length tasks")
    case False
    then show ?thesis using Cons.IH [OF Cons.prems] by simp
  next
    case True
    obtain t u1 where r: "resumeCheck sh (tasks ! i) u = (t, u1)"
      by (cases "resumeCheck sh (tasks ! i) u")
    from Cons.prems True have "tasks ! i \<in> set (stages sh (toolNames ! i) w)"
      by (simp add: list_all2_conv_all_nth)
    from stages_resume [OF st this, of u] r
    have "t \<in> set (stages sh (toolNames ! i) w)" by simp
    with Cons.prems True
    have "list_all2 (\<lambda>n t. t \<in> set (stages sh n w)) toolNames (tasks[i := t])"
      by (simp add: list_all2_conv_all_nth nth_list_update)
    from Cons.IH [OF this, of u1] True r show ?thesis by simp
  qed
qed

lemma stages_statuses:
  assumes st: "\<forall>cmd ms u v. fst (sh cmd ms u) = fst (sh cmd ms v)"
  shows "list_all2 (\<lambda>n t. t \<in> set (stages sh n w)) toolNames tasks \<Longrightarrow>
         list_all (\<lambda>t. settled t \<noteq> None) tasks \<Longrightarrow>
         List.map_filter settled tasks = map (\<lambda>n. fst (checkToolInstalled sh n w)) toolNames"
proof (induction toolNames tasks rule: list_all2_induct)
  case Nil
  show ?case by (simp add: List.map_filter_simps)
next
  case (Cons n ns t ts)
  from Cons.prems obtain s where s: "settled t = Some s" by auto
  from stages_settled [OF st Cons.hyps(1) s] s Cons show ?case
    by (simp add: List.map_filter_simps)
qed

text \<open>
  On such a shell the statuses are those of the calls made one at a time, in the order of
  the names, whatever the schedule.
\<close>

lemma checkMultipleTools_steady:
  assumes st: "\<forall>cmd ms u v. fst (sh cmd ms u) = fst (sh cmd ms v)"
    and c: "checkMultipleTools sh toolNames schedule w = Some (statuses, w')"
  shows "statuses = map (\<lambda>n. fst (checkToolInstalled sh n w)) toolNames"
proof -
  obtain started w0 where s: "startChecks sh toolNames w = (started, w0)"
    by (cases "startChecks sh toolNames w")
  obtain tasks w1 where r: "runSchedule sh schedule started w0 = (tasks, w1)"
    by (cases "runSchedule sh schedule started w0")
  from c s r have a: "list_all (\<lambda>t. settled t \<noteq> None) tasks"
    and e: "statuses = List.map_filter settled tasks"
    by (auto simp: checkMultipleTools_def split: if_splits)
  have "list_all2 (\<lambda>n t. t \<in> set (stages sh n w)) toolNames started"
    using startChecks_stages [OF st, of w toolNames w] s by simp
  from runSchedule_stages [OF st this, of schedule w0] r
  have "list_all2 (\<lambda>n t. t \<in> set (stages sh n w)) toolNames tasks" by simp
  from stages_statuses [OF st this a] e show ?thesis by simp
qed


subsection \<open>The catalogue\<close>

lemma catalogue_subjects:
  "map (\<lambda>n. case getToolConfig n of
               Own c \<Rightarrow> (Some (name c), Some (displayName c))
             | Inherited k \<Rightarrow> (inherited_name k, None)
             | Absent \<Rightarrow> (Some n, Some n)) getAllToolNames
     = map (\<lambda>(k, c). (Some (name c), Some (displayName c))) TOOL_CONFIGS"
  by (simp add: getAllToolNames_def TOOL_CONFIGS_def getToolConfig_def)

lemma catalogue_commands:
  "map (\<lambda>n. template (js_prop commandToCheck (getToolConfig n))) getAllToolNames
     = map (commandToCheck \<circ> snd) TOOL_CONFIGS"
  by (simp add: getAllToolNames_def TOOL_CONFIGS_def getToolConfig_def js_prop_def template_def)

lemma catalogue_present: "\<forall>n \<in> set getAllToolNames. getToolConfig n \<noteq> Absent"
  by (simp add: getAllToolNames_def TOOL_CONFIGS_def getToolConfig_def)

text \<open>
  The eight probes on the Debian machine with git, their commands settling from the last
  catalogue entry to the first and the version command of git last of all.
\<close>

lemma debian_check_all:
  "checkAllTools debian [7, 6, 5, 4, 3, 2, 1, 0, 2] debian_with_git =
     Some ([\<lparr>ts_name = Some ''python'', ts_displayName = Some ''Python'',
             installed = False, version = None\<rparr>,
            \<lparr>ts_name = Some ''nodejs'', ts_displayName = Some ''Node.js'',
             installed = False, version = None\<rparr>,
            \<lparr>ts_name = Some ''git'', ts_displayName = Some ''Git'', installed = True,
              version = Some ''git version 2.43.0''\<rparr>,
            \<lparr>ts_name = Some ''docker'', ts_displayName = Some ''Docker'',
             installed = False, version = None\<rparr>,
            \<lparr>ts_name = Some ''java'', ts_displayName = Some ''Java'',
             installed = False, version = None\<rparr>,
            \<lparr>ts_name = Some ''go'', ts_displayName = Some ''Go'',
             installed = False, version = None\<rparr>,
            \<lparr>ts_name = Some ''rust'', ts_displayName = Some ''Rust'',
             installed = False, version = None\<rparr>,
            \<lparr>ts_name = Some ''flutter'', ts_displayName = Some ''Flutter'',
             installed = False, version = None\<rparr>],
           debian_with_git\<lparr>invoked := [''which python3'', ''which node'', ''which git'',
              ''which docker'', ''which java'', ''which go'', ''which rustc'', ''which flutter'',
              ''git --version'']\<rparr>)"
  by (simp add: checkAllTools_def checkMultipleTools_def getAllToolNames_eq startCheck_def
      getToolConfig_def TOOL_CONFIGS_def toolStatus_def member_name_def js_prop_def template_def
      truthy_def List.map_filter_simps
      python_config_def nodejs_config_def git_config_def docker_config_def java_config_def
      go_config_def rust_config_def flutter_config_def
      debian_which debian_git_version debian_with_git_def)

text \<open>The workstation, one command at a time, and the eight calls made one at a time.\<close>

lemma workstation_which:
  "commandExists workstation c w =
     (c = ''git'' \<or> c = ''node'', w\<lparr>invoked := invoked w @ [''which '' @ c]\<rparr>)"
  by (simp add: commandExists_def executeCommand_def workstation_def js_or_def trim_def
      is_white_def)

lemma workstation_version:
  "getCommandVersion workstation ''git'' ''--version'' w =
     (Some ''git version 2.43.0'', w\<lparr>invoked := invoked w @ [''git --version'']\<rparr>)"
  "getCommandVersion workstation ''node'' ''--version'' w =
     (Some ''v20.11.0'', w\<lparr>invoked := invoked w @ [''node --version'']\<rparr>)"
  by (simp_all add: getCommandVersion_def executeCommand_def workstation_def trim_def
      is_white_def first_line_def)

lemma workstation_each:
  "map (\<lambda>n. fst (checkToolInstalled workstation n w)) getAllToolNames =
     [\<lparr>ts_name = Some ''python'', ts_displayName = Some ''Python'',
       installed = False, version = None\<rparr>,
      \<lparr>ts_name = Some ''nodejs'', ts_displayName = Some ''Node.js'', installed = True,
        version = Some ''v20.11.0''\<rparr>,
      \<lparr>ts_name = Some ''git'', ts_displayName = Some ''Git'', installed = True,
        version = Some ''git version 2.43.0''\<rparr>,
      \<lparr>ts_name = Some ''docker'', ts_displayName = Some ''Docker'',
       installed = False, version = None\<rparr>,
      \<lparr>ts_name = Some ''java'', ts_displayName = Some ''Java'',
       installed = False, version = None\<rparr>,
      \<lparr>ts_name = Some ''go'', ts_displayName = Some ''Go'',
       installed = False, version = None\<rparr>,
      \<lparr>ts_name = Some ''rust'', ts_displayName = Some ''Rust'',
       installed = False, version = None\<rparr>,
      \<lparr>ts_name = Some ''flutter'', ts_displayName = Some ''Flutter'',
       installed = False, version = None\<rparr>]"
  by (simp add: getAllToolNames_eq checkToolInstalled_def
      getToolConfig_def TOOL_CONFIGS_def toolStatus_def member_name_def js_prop_def template_def
      truthy_def
      python_config_def nodejs_config_def git_config_def docker_config_def java_config_def
      go_config_def rust_config_def flutter_config_def
      workstation_which workstation_version)

text \<open>
  Claim C8. Whatever the shell answers, and in whatever order the awaited commands of
  the probes settle: when \<^const>\<open>checkAllTools\<close> fulfils, it does so with exactly one status
  per catalogue entry, the status at each position carrying the name and display name of
  the catalogue entry at that position, so the names are \<^const>\<open>getAllToolNames\<close> in order;
  its \<^const>\<open>installed\<close> flag is what the \<^verbatim>\<open>which\<close> command of that entry found, these
  commands having been handed to the shell one after the other in catalogue order before
  anything else. Where the answers of the shell do not depend on the state of the machine,
  the whole result is the list of the statuses that \<^const>\<open>checkToolInstalled\<close> returns for
  the catalogue names one at a time, so it is the same for every order of settling. And
  \<^const>\<open>checkAllTools\<close> does fulfil as soon as the commands of every probe have settled,
  which takes at most two turns per probe.
\<close>

theorem checkAllTools_order:
  "(checkAllTools sh schedule w = Some (statuses, w')
      \<longrightarrow> length statuses = length TOOL_CONFIGS
          \<and> map ts_name statuses = map Some getAllToolNames
          \<and> map (\<lambda>s. (ts_name s, ts_displayName s)) statuses
              = map (\<lambda>(k, c). (Some (name c), Some (displayName c))) TOOL_CONFIGS
          \<and> map installed statuses
              = fst (probeEach sh (map (commandToCheck \<circ> snd) TOOL_CONFIGS) w)
          \<and> prefix (invoked w @ map (\<lambda>(k, c). ''which '' @ commandToCheck c) TOOL_CONFIGS)
                   (invoked w')
          \<and> ((\<forall>cmd ms u v. fst (sh cmd ms u) = fst (sh cmd ms v))
              \<longrightarrow> statuses = map (\<lambda>n. fst (checkToolInstalled sh n w)) getAllToolNames))
   \<and> ((\<forall>i < length TOOL_CONFIGS. 2 \<le> count_list schedule i)
      \<longrightarrow> checkAllTools sh schedule w \<noteq> None)"
proof (intro conjI impI)
  assume a: "checkAllTools sh schedule w = Some (statuses, w')"
  then have c: "checkMultipleTools sh getAllToolNames schedule w = Some (statuses, w')"
    by (simp add: checkAllTools_def)
  have s: "map (\<lambda>s. (ts_name s, ts_displayName s)) statuses
              = map (\<lambda>(k, c). (Some (name c), Some (displayName c))) TOOL_CONFIGS"
    using checkMultipleTools_subjects [OF c]
    by (simp only: startChecks_subject catalogue_subjects)
  then show "map (\<lambda>s. (ts_name s, ts_displayName s)) statuses
              = map (\<lambda>(k, c). (Some (name c), Some (displayName c))) TOOL_CONFIGS" .
  from s have "length (map (\<lambda>s. (ts_name s, ts_displayName s)) statuses)
      = length (map (\<lambda>(k, c). (Some (name c), Some (displayName c))) TOOL_CONFIGS)"
    by (rule arg_cong)
  then show "length statuses = length TOOL_CONFIGS" by simp
  from s have "map fst (map (\<lambda>s. (ts_name s, ts_displayName s)) statuses)
      = map fst (map (\<lambda>(k, c). (Some (name c), Some (displayName c))) TOOL_CONFIGS)"
    by (rule arg_cong)
  then have "map ts_name statuses = map (Some \<circ> (name \<circ> snd)) TOOL_CONFIGS"
    by (simp add: comp_def case_prod_beta)
  also have "\<dots> = map Some (map (name \<circ> snd) TOOL_CONFIGS)" by simp
  also have "\<dots> = map Some getAllToolNames"
    by (simp only: TOOL_CONFIGS_names getAllToolNames_def)
  finally show "map ts_name statuses = map Some getAllToolNames" .
  have p: "map found (fst (startChecks sh getAllToolNames w))
             = fst (probeEach sh (map (commandToCheck \<circ> snd) TOOL_CONFIGS) w)"
    and q: "snd (startChecks sh getAllToolNames w)
             = snd (probeEach sh (map (commandToCheck \<circ> snd) TOOL_CONFIGS) w)"
    using startChecks_probeEach [OF catalogue_present, of sh w]
    by (simp_all only: catalogue_commands)
  show "map installed statuses
          = fst (probeEach sh (map (commandToCheck \<circ> snd) TOOL_CONFIGS) w)"
    using checkMultipleTools_found [OF c] p by simp
  have "invoked (snd (startChecks sh getAllToolNames w))
          = invoked w @ map (\<lambda>(k, c). ''which '' @ commandToCheck c) TOOL_CONFIGS"
    unfolding q probeEach_invoked by (simp add: comp_def case_prod_beta)
  then show "prefix (invoked w @ map (\<lambda>(k, c). ''which '' @ commandToCheck c) TOOL_CONFIGS)
                    (invoked w')"
    using checkMultipleTools_invoked [OF c] by simp
  assume "\<forall>cmd ms u v. fst (sh cmd ms u) = fst (sh cmd ms v)"
  then show "statuses = map (\<lambda>n. fst (checkToolInstalled sh n w)) getAllToolNames"
    using c by (rule checkMultipleTools_steady)
next
  assume "\<forall>i < length TOOL_CONFIGS. 2 \<le> count_list schedule i"
  then have "\<forall>i < length getAllToolNames. 2 \<le> count_list schedule i"
    by (simp add: getAllToolNames_def)
  then show "checkAllTools sh schedule w \<noteq> None"
    unfolding checkAllTools_def by (rule checkMultipleTools_completes)
qed

theorem checkAllTools_order_witness:
  "\<exists>w'. checkAllTools workstation [7, 6, 5, 4, 3, 2, 1, 0, 2, 0, 1, 3, 4, 5, 6, 7] blank =
     Some ([\<lparr>ts_name = Some ''python'', ts_displayName = Some ''Python'',
             installed = False, version = None\<rparr>,
            \<lparr>ts_name = Some ''nodejs'', ts_displayName = Some ''Node.js'', installed = True,
              version = Some ''v20.11.0''\<rparr>,
            \<lparr>ts_name = Some ''git'', ts_displayName = Some ''Git'', installed = True,
              version = Some ''git version 2.43.0''\<rparr>,
            \<lparr>ts_name = Some ''docker'', ts_displayName = Some ''Docker'',
             installed = False, version = None\<rparr>,
            \<lparr>ts_name = Some ''java'', ts_displayName = Some ''Java'',
             installed = False, version = None\<rparr>,
            \<lparr>ts_name = Some ''go'', ts_displayName = Some ''Go'',
             installed = False, version = None\<rparr>,
            \<lparr>ts_name = Some ''rust'', ts_displayName = Some ''Rust'',
             installed = False, version = None\<rparr>,
            \<lparr>ts_name = Some ''flutter'', ts_displayName = Some ''Flutter'',
             installed = False, version = None\<rparr>], w')"
proof -
  have len: "length TOOL_CONFIGS = 8"
    by (simp add: TOOL_CONFIGS_def)
  have fair: "\<forall>i < length TOOL_CONFIGS.
      2 \<le> count_list [7, 6, 5, 4, 3, 2, 1, 0, 2, 0, 1, 3, 4, 5, 6, 7::nat] i"
    unfolding len by (auto simp: less_Suc_eq numeral_eq_Suc)
  have steady: "\<forall>cmd ms u v. fst (workstation cmd ms u) = fst (workstation cmd ms v)"
    by (simp add: workstation_def)
  from checkAllTools_order
         [of workstation "[7, 6, 5, 4, 3, 2, 1, 0, 2, 0, 1, 3, 4, 5, 6, 7]" blank]
    fair
  obtain statuses w' where
    r: "checkAllTools workstation [7, 6, 5, 4, 3, 2, 1, 0, 2, 0, 1, 3, 4, 5, 6, 7] blank
          = Some (statuses, w')"
    by fastforce
  from checkAllTools_order
         [of workstation "[7, 6, 5, 4, 3, 2, 1, 0, 2, 0, 1, 3, 4, 5, 6, 7]" blank
          statuses w'] r steady
  have "statuses = map (\<lambda>n. fst (checkToolInstalled workstation n blank)) getAllToolNames"
    by blast
  with r show ?thesis by (simp only: workstation_each) blast
qed

end
